theory Spec2Isabelle
  imports Complex_Main "HOL-Library.Char_ord" "HOL-Library.List_Lexorder"
begin

section \<open>Python values and builtins used by the handlers\<close>

text \<open>
  The handlers of \<^verbatim>\<open>main.py\<close> work on Python strings, floats and the values that
  \<^verbatim>\<open>json.loads\<close> produces. A Python string is modelled as a \<^typ>\<open>string\<close>: one
  \<^typ>\<open>char\<close> per code point, for the code points below 256. Exceptions are values
  of the type \<open>error\<close>; a computation that can raise returns \<open>error + 'a\<close>, with
  \<open>Inl\<close> for the exception.
\<close>

datatype error =
    ValueError
  | TypeError
  | ZeroDivisionError
  | AttributeError
  | JSONDecodeError
  | HTTPException nat string

text \<open>
  A Python float is a binary64 number: a finite value, given by the rational it is equal
  to, one of the two infinities, or NaN. The two zeros are one value (they are equal in
  Python, and no handler looks at the sign of a zero).
\<close>

datatype pyfloat = Fin rat | PosInf | NegInf | NaN

text \<open>
  Every operation on floats gives the binary64 number nearest to the exact result, ties
  going to the even significand. \<open>floor_log2 a\<close> is the exponent \<open>e\<close> with
  \<open>2 ^ e \<le> a < 2 ^ (e + 1)\<close> of a positive rational. A finite binary64 number is a
  multiple of \<open>2 ^ (e - 52)\<close> for its exponent \<open>e\<close>, which is at least \<open>- 1022\<close>; the
  largest one has the exponent 1023 and the significand \<open>2 ^ 53 - 1\<close>, and what rounds
  above it is an infinity.
\<close>

definition pow2 :: "int \<Rightarrow> rat" where
  "pow2 e = (if 0 \<le> e then 2 ^ nat e else 1 / 2 ^ nat (- e))"

function bit_length :: "int \<Rightarrow> nat" where
  "bit_length n = (if n \<le> 0 then 0 else Suc (bit_length (n div 2)))"
  by pat_completeness auto

termination
  by (relation "measure nat") auto

declare bit_length.simps [simp del]

definition floor_log2 :: "rat \<Rightarrow> int" where
  "floor_log2 a =
     (case quotient_of a of
        (p, q) \<Rightarrow>
          (let e = int (bit_length p) - int (bit_length q)
           in if pow2 e \<le> a then e else e - 1))"

definition round_half_even :: "rat \<Rightarrow> int" where
  "round_half_even x =
     (let f = \<lfloor>x\<rfloor>; d = x - of_int f
      in if d < 1 / 2 then f
         else if 1 / 2 < d then f + 1
         else if even f then f else f + 1)"

definition round64 :: "rat \<Rightarrow> pyfloat" where
  "round64 x =
     (if x = 0 then Fin 0
      else
        (let a = \<bar>x\<bar>;
             e = max (floor_log2 a) (- 1022);
             ulp = pow2 (e - 52);
             m = round_half_even (a / ulp)
         in if 1024 \<le> e \<or> (e = 1023 \<and> m = 2 ^ 53)
            then (if 0 < x then PosInf else NegInf)
            else Fin (if 0 < x then of_int m * ulp else - (of_int m * ulp))))"

text \<open>\<^verbatim>\<open>a / b\<close> on floats for a divisor that is not zero.\<close>

fun float_quot :: "pyfloat \<Rightarrow> pyfloat \<Rightarrow> pyfloat" where
  "float_quot NaN b = NaN"
| "float_quot a NaN = NaN"
| "float_quot (Fin a) (Fin b) = round64 (a / b)"
| "float_quot (Fin a) b = Fin 0"
| "float_quot PosInf (Fin b) = (if 0 \<le> b then PosInf else NegInf)"
| "float_quot NegInf (Fin b) = (if 0 \<le> b then NegInf else PosInf)"
| "float_quot a b = NaN"

text \<open>\<^verbatim>\<open>a / b\<close>: a zero divisor raises \<^verbatim>\<open>ZeroDivisionError\<close>.\<close>

definition py_truediv :: "pyfloat \<Rightarrow> pyfloat \<Rightarrow> error + pyfloat" where
  "py_truediv a b = (if b = Fin 0 then Inl ZeroDivisionError else Inr (float_quot a b))"


subsection \<open>Characters\<close>

text \<open>\<^verbatim>\<open>str.isspace\<close> on one character; \<^verbatim>\<open>str.strip()\<close> and the pattern
  \<^verbatim>\<open>\s\<close> use this class.\<close>

definition is_space :: "char \<Rightarrow> bool" where
  "is_space c = (c \<in> set [CHR 0x09, CHR 0x0A, CHR 0x0B, CHR 0x0C, CHR 0x0D,
                            CHR 0x1C, CHR 0x1D, CHR 0x1E, CHR 0x1F, CHR 0x20,
                            CHR 0x85, CHR 0xA0])"

text \<open>The whitespace that \<^verbatim>\<open>float()\<close> removes around its argument.\<close>

definition is_float_space :: "char \<Rightarrow> bool" where
  "is_float_space c = (c \<in> set [CHR 0x09, CHR 0x0A, CHR 0x0B, CHR 0x0C, CHR 0x0D,
                                  CHR 0x20, CHR 0x85, CHR 0xA0])"

definition is_digit :: "char \<Rightarrow> bool" where
  "is_digit c = (c \<in> set ''0123456789'')"

definition digit_val :: "char \<Rightarrow> nat" where
  "digit_val c = of_char c - 48"

text \<open>\<^verbatim>\<open>str.lower()\<close> on one character: the letters A to Z, and the capital letters
  of the range 0xC0 to 0xDE other than the multiplication sign 0xD7.\<close>

definition lower_char :: "char \<Rightarrow> char" where
  "lower_char c =
     (let n = (of_char c :: nat)
      in if (65 \<le> n \<and> n \<le> 90) \<or> (192 \<le> n \<and> n \<le> 222 \<and> n \<noteq> 215)
         then char_of (n + 32) else c)"

definition py_lower :: "string \<Rightarrow> string" where
  "py_lower s = map lower_char s"

definition strip_with :: "(char \<Rightarrow> bool) \<Rightarrow> string \<Rightarrow> string" where
  "strip_with p s = rev (dropWhile p (rev (dropWhile p s)))"


subsection \<open>\<^verbatim>\<open>float(s)\<close> on a string\<close>

text \<open>
  The grammar of the language reference:
  \<^verbatim>\<open>digitpart ::= digit (["_"] digit)*\<close>,
  \<^verbatim>\<open>number ::= [digitpart] "." digitpart | digitpart ["."]\<close>,
  \<^verbatim>\<open>exponent ::= ("e" | "E") [sign] digitpart\<close>,
  \<^verbatim>\<open>floatvalue ::= [sign] (number [exponent] | "inf" | "infinity" | "nan")\<close>,
  the words in any letter case, with whitespace removed at both ends.
  \<open>digits_acc v n s\<close> reads the rest of a digit part: the value so far, the number of
  digits so far, and the input.
\<close>

fun digits_acc :: "nat \<Rightarrow> nat \<Rightarrow> string \<Rightarrow> nat \<times> nat \<times> string" where
  "digits_acc v n [] = (v, n, [])"
| "digits_acc v n (c # cs) =
     (if is_digit c then digits_acc (10 * v + digit_val c) (Suc n) cs
      else if c = CHR ''_'' \<and> (case cs of [] \<Rightarrow> False | d # ds \<Rightarrow> is_digit d)
           then digits_acc v n cs
      else (v, n, c # cs))"

definition digitpart :: "string \<Rightarrow> (nat \<times> nat \<times> string) option" where
  "digitpart s =
     (case s of
        [] \<Rightarrow> None
      | c # cs \<Rightarrow> if is_digit c then Some (digits_acc 0 0 s) else None)"

definition frac_val :: "nat \<Rightarrow> nat \<Rightarrow> rat" where
  "frac_val v n = of_nat v / 10 ^ n"

definition float_number :: "string \<Rightarrow> (rat \<times> string) option" where
  "float_number s =
     (case digitpart s of
        Some (iv, n, r) \<Rightarrow>
          (case r of
             [] \<Rightarrow> Some (of_nat iv, [])
           | c # r' \<Rightarrow>
               if c = CHR ''.'' then
                 (case digitpart r' of
                    Some (fv, fn, r'') \<Rightarrow> Some (of_nat iv + frac_val fv fn, r'')
                  | None \<Rightarrow> Some (of_nat iv, r'))
               else Some (of_nat iv, r))
      | None \<Rightarrow>
          (case s of
             [] \<Rightarrow> None
           | c # r' \<Rightarrow>
               if c = CHR ''.'' then
                 (case digitpart r' of
                    Some (fv, fn, r'') \<Rightarrow> Some (frac_val fv fn, r'')
                  | None \<Rightarrow> None)
               else None))"

text \<open>An optional sign: whether it is a minus, and the rest.\<close>

definition take_sign :: "string \<Rightarrow> bool \<times> string" where
  "take_sign s =
     (case s of
        [] \<Rightarrow> (False, [])
      | c # cs \<Rightarrow> if c = CHR ''-'' then (True, cs)
                  else if c = CHR ''+'' then (False, cs)
                  else (False, s))"

text \<open>The exponent part and what follows it; \<open>None\<close> when the input is not an exponent.\<close>

definition float_exponent :: "string \<Rightarrow> (int \<times> string) option" where
  "float_exponent s =
     (case s of
        [] \<Rightarrow> None
      | c # cs \<Rightarrow>
          if c = CHR ''e'' \<or> c = CHR ''E'' then
            (case take_sign cs of
               (neg, r) \<Rightarrow>
                 (case digitpart r of
                    Some (ev, n, r') \<Rightarrow> Some (if neg then - int ev else int ev, r')
                  | None \<Rightarrow> None))
          else None)"

definition scale10 :: "rat \<Rightarrow> int \<Rightarrow> rat" where
  "scale10 m e = (if 0 \<le> e then m * 10 ^ nat e else m / 10 ^ nat (- e))"

definition abs_float_value :: "string \<Rightarrow> pyfloat option" where
  "abs_float_value s =
     (if py_lower s = ''inf'' \<or> py_lower s = ''infinity'' then Some PosInf
      else if py_lower s = ''nan'' then Some NaN
      else
        (case float_number s of
           None \<Rightarrow> None
         | Some (m, r) \<Rightarrow>
             if r = [] then Some (round64 m)
             else
               (case float_exponent r of
                  None \<Rightarrow> None
                | Some (e, r') \<Rightarrow> if r' = [] then Some (round64 (scale10 m e)) else None)))"

fun float_neg :: "pyfloat \<Rightarrow> pyfloat" where
  "float_neg (Fin x) = Fin (- x)"
| "float_neg PosInf = NegInf"
| "float_neg NegInf = PosInf"
| "float_neg NaN = NaN"

text \<open>\<^verbatim>\<open>float(s)\<close>: the value, or \<^verbatim>\<open>ValueError\<close>.\<close>

definition py_float :: "string \<Rightarrow> error + pyfloat" where
  "py_float s =
     (case take_sign (strip_with is_float_space s) of
        (neg, r) \<Rightarrow>
          (case abs_float_value r of
             None \<Rightarrow> Inl ValueError
           | Some v \<Rightarrow> Inr (if neg then float_neg v else v)))"

text \<open>\<^verbatim>\<open>s.split(c)\<close> for a separator of one character.\<close>

fun py_split :: "char \<Rightarrow> string \<Rightarrow> string list" where
  "py_split c [] = [[]]"
| "py_split c (x # xs) =
     (if x = c then [] # py_split c xs
      else (case py_split c xs of
              [] \<Rightarrow> [[x]]
            | p # ps \<Rightarrow> (x # p) # ps))"

section \<open>The quantity parser\<close>

text \<open>
  The fraction branch of \<^verbatim>\<open>parse_quantity\<close>:
  \<^verbatim>\<open>num, den = quantity_str.split("/"); return float(num) / float(den)\<close>.
  Unpacking a list that has not exactly two elements raises \<^verbatim>\<open>ValueError\<close>.
\<close>

definition fraction :: "string \<Rightarrow> error + pyfloat" where
  "fraction s =
     (case py_split CHR ''/'' s of
        [num, den] \<Rightarrow>
          (case py_float num of
             Inl e \<Rightarrow> Inl e
           | Inr n \<Rightarrow>
               (case py_float den of
                  Inl e \<Rightarrow> Inl e
                | Inr d \<Rightarrow> py_truediv n d))
      | _ \<Rightarrow> Inl ValueError)"

text \<open>
  \<^verbatim>\<open>parse_quantity\<close> of \<^verbatim>\<open>main.py\<close>. The result \<open>Inr None\<close> is the return value
  \<^verbatim>\<open>None\<close>; \<open>Inl e\<close> is an exception that leaves the function. The two
  \<^verbatim>\<open>except\<close> clauses catch the exceptions they name and no others.
\<close>

definition parse_quantity :: "string \<Rightarrow> error + pyfloat option" where
  "parse_quantity quantity_str =
     (if quantity_str = [] then Inr None
      else
        (case py_float quantity_str of
           Inr v \<Rightarrow> Inr (Some v)
         | Inl e \<Rightarrow>
             if e = ValueError \<or> e = TypeError then
               (if CHR ''/'' \<in> set quantity_str then
                  (case fraction quantity_str of
                     Inr q \<Rightarrow> Inr (Some q)
                   | Inl e' \<Rightarrow>
                       if e' = ValueError \<or> e' = ZeroDivisionError then Inr None
                       else Inl e')
                else Inr None)
             else Inl e))"


section \<open>JSON values\<close>

text \<open>
  The values that \<^verbatim>\<open>json.loads\<close> produces and that a JSON column stores. A
  \<^verbatim>\<open>dict\<close> keeps its keys in insertion order: an association list with no key twice.
\<close>

datatype pyval =
    PNone
  | PBool bool
  | PInt int
  | PFloat pyfloat
  | PStr string
  | PList "pyval list"
  | PDict "(string \<times> pyval) list"

text \<open>Truth value testing, as \<^verbatim>\<open>if x\<close>, \<^verbatim>\<open>not x\<close> and \<^verbatim>\<open>x or y\<close> do it.\<close>

fun truthy :: "pyval \<Rightarrow> bool" where
  "truthy PNone = False"
| "truthy (PBool b) = b"
| "truthy (PInt i) = (i \<noteq> 0)"
| "truthy (PFloat f) = (f \<noteq> Fin 0)"
| "truthy (PStr s) = (s \<noteq> [])"
| "truthy (PList xs) = (xs \<noteq> [])"
| "truthy (PDict kvs) = (kvs \<noteq> [])"

definition py_or :: "pyval \<Rightarrow> pyval \<Rightarrow> pyval" where
  "py_or a b = (if truthy a then a else b)"

text \<open>\<^verbatim>\<open>d[k] = v\<close> on an insertion-ordered dictionary.\<close>

fun dict_set :: "'k \<Rightarrow> 'v \<Rightarrow> ('k \<times> 'v) list \<Rightarrow> ('k \<times> 'v) list" where
  "dict_set k v [] = [(k, v)]"
| "dict_set k v ((k', v') # kvs) =
     (if k' = k then (k, v) # kvs else (k', v') # dict_set k v kvs)"

text \<open>\<^verbatim>\<open>x.get(key)\<close>: a dictionary gives the value or \<^verbatim>\<open>None\<close>; the other values
  have no attribute \<^verbatim>\<open>get\<close>.\<close>

definition py_get :: "pyval \<Rightarrow> string \<Rightarrow> error + pyval" where
  "py_get x key =
     (case x of
        PDict kvs \<Rightarrow> (case map_of kvs key of None \<Rightarrow> Inr PNone | Some v \<Rightarrow> Inr v)
      | _ \<Rightarrow> Inl AttributeError)"






subsection \<open>\<^verbatim>\<open>json.loads\<close>\<close>

text \<open>
  The decoder of the standard library with its default arguments: whitespace is space,
  tab, newline and carriage return; the literals are \<^verbatim>\<open>null\<close>, \<^verbatim>\<open>true\<close>,
  \<^verbatim>\<open>false\<close>, \<^verbatim>\<open>NaN\<close>, \<^verbatim>\<open>Infinity\<close> and \<^verbatim>\<open>-Infinity\<close>; a number without fraction
  and exponent is an \<^verbatim>\<open>int\<close>, any other a \<^verbatim>\<open>float\<close>; a string may not hold a control
  character; of two equal keys the later value is kept; text after the value is an error.
  Every failure is a \<^verbatim>\<open>JSONDecodeError\<close>. Outside the model: an escape
  \<^verbatim>\<open>\uXXXX\<close> of a code point above 255 (it is reported as a failure), and the limits of
  the interpreter on nesting depth and on the digits of an integer.
\<close>

definition after_prefix :: "string \<Rightarrow> string \<Rightarrow> string option" where
  "after_prefix p s = (if take (length p) s = p then Some (drop (length p) s) else None)"

definition json_ws :: "string \<Rightarrow> string" where
  "json_ws s = dropWhile (\<lambda>c. c \<in> set [CHR 0x20, CHR 0x09, CHR 0x0A, CHR 0x0D]) s"

definition hex_val :: "char \<Rightarrow> nat option" where
  "hex_val c =
     (let n = (of_char c :: nat)
      in if 48 \<le> n \<and> n \<le> 57 then Some (n - 48)
         else if 97 \<le> n \<and> n \<le> 102 then Some (n - 87)
         else if 65 \<le> n \<and> n \<le> 70 then Some (n - 55)
         else None)"

definition hex4 :: "string \<Rightarrow> nat option" where
  "hex4 s =
     (case map hex_val (take 4 s) of
        [Some a, Some b, Some c, Some d] \<Rightarrow> Some (((a * 16 + b) * 16 + c) * 16 + d)
      | _ \<Rightarrow> None)"

text \<open>The character that follows a backslash, for the escapes of one character.\<close>

definition unescape :: "char \<Rightarrow> char option" where
  "unescape e =
     (if e = CHR 0x22 \<or> e = CHR 0x5C \<or> e = CHR ''/'' then Some e
      else if e = CHR ''b'' then Some (CHR 0x08)
      else if e = CHR ''f'' then Some (CHR 0x0C)
      else if e = CHR ''n'' then Some (CHR 0x0A)
      else if e = CHR ''r'' then Some (CHR 0x0D)
      else if e = CHR ''t'' then Some (CHR 0x09)
      else None)"

text \<open>The rest of a string after its opening quote: the characters read so far (the
  last one first), and the input.\<close>

fun scan_string :: "string \<Rightarrow> string \<Rightarrow> (string \<times> string) option" where
  "scan_string acc [] = None"
| "scan_string acc (c # cs) =
     (if c = CHR 0x22 then Some (rev acc, cs)
      else if c = CHR 0x5C then
        (case cs of
           [] \<Rightarrow> None
         | e # cs' \<Rightarrow>
             if e = CHR ''u'' then
               (case hex4 cs' of
                  None \<Rightarrow> None
                | Some n \<Rightarrow> if n < 256 then scan_string (char_of n # acc) (drop 4 cs') else None)
             else
               (case unescape e of
                  None \<Rightarrow> None
                | Some ch \<Rightarrow> scan_string (ch # acc) cs'))
      else if (of_char c :: nat) < 32 then None
      else scan_string (c # acc) cs)"

definition nat_of_digits :: "string \<Rightarrow> nat" where
  "nat_of_digits ds = foldl (\<lambda>v c. 10 * v + digit_val c) 0 ds"

text \<open>
  A number, by the pattern
  \<^verbatim>\<open>(-?(?:0|[1-9][0-9]*))(\.[0-9]+)?([eE][-+]?[0-9]+)?\<close>: \<open>json_int\<close> reads the integer
  part without its sign, \<open>json_frac\<close> and \<open>json_exp\<close> the two optional groups.
\<close>

definition json_int :: "string \<Rightarrow> (nat \<times> string) option" where
  "json_int s =
     (case s of
        [] \<Rightarrow> None
      | c # cs \<Rightarrow>
          if c = CHR ''0'' then Some (0, cs)
          else if is_digit c then Some (nat_of_digits (takeWhile is_digit s), dropWhile is_digit s)
          else None)"

definition json_frac :: "string \<Rightarrow> (rat \<times> string) option" where
  "json_frac s =
     (case s of
        [] \<Rightarrow> None
      | c # cs \<Rightarrow>
          if c = CHR ''.'' \<and> takeWhile is_digit cs \<noteq> [] then
            Some (frac_val (nat_of_digits (takeWhile is_digit cs)) (length (takeWhile is_digit cs)),
                  dropWhile is_digit cs)
          else None)"

definition json_exp :: "string \<Rightarrow> (int \<times> string) option" where
  "json_exp s =
     (case s of
        [] \<Rightarrow> None
      | c # cs \<Rightarrow>
          if c = CHR ''e'' \<or> c = CHR ''E'' then
            (case take_sign cs of
               (neg, r) \<Rightarrow>
                 if takeWhile is_digit r \<noteq> [] then
                   Some ((if neg then - int (nat_of_digits (takeWhile is_digit r))
                          else int (nat_of_digits (takeWhile is_digit r))),
                         dropWhile is_digit r)
                 else None)
          else None)"

definition json_number :: "string \<Rightarrow> (pyval \<times> string) option" where
  "json_number s =
     (let neg = (take 1 s = ''-''); s1 = (if neg then drop 1 s else s)
      in case json_int s1 of
           None \<Rightarrow> None
         | Some (i, r) \<Rightarrow>
             (case json_frac r of
                None \<Rightarrow>
                  (case json_exp r of
                     None \<Rightarrow> Some (PInt (if neg then - int i else int i), r)
                   | Some (e, r') \<Rightarrow>
                       Some (PFloat (round64 (scale10 (if neg then - of_nat i else of_nat i) e)), r'))
              | Some (f, r1) \<Rightarrow>
                  (case json_exp r1 of
                     None \<Rightarrow> Some (PFloat (round64 (if neg then - (of_nat i + f) else of_nat i + f)), r1)
                   | Some (e, r') \<Rightarrow>
                       Some (PFloat (round64 (scale10 (if neg then - (of_nat i + f) else of_nat i + f) e)),
                             r'))))"

text \<open>The values that are neither a string nor a container, in the order in which the
  scanner tries them.\<close>

definition json_atom :: "string \<Rightarrow> (pyval \<times> string) option" where
  "json_atom s =
     (case after_prefix ''null'' s of Some r \<Rightarrow> Some (PNone, r) | None \<Rightarrow>
     (case after_prefix ''true'' s of Some r \<Rightarrow> Some (PBool True, r) | None \<Rightarrow>
     (case after_prefix ''false'' s of Some r \<Rightarrow> Some (PBool False, r) | None \<Rightarrow>
     (case json_number s of Some vr \<Rightarrow> Some vr | None \<Rightarrow>
     (case after_prefix ''NaN'' s of Some r \<Rightarrow> Some (PFloat NaN, r) | None \<Rightarrow>
     (case after_prefix ''Infinity'' s of Some r \<Rightarrow> Some (PFloat PosInf, r) | None \<Rightarrow>
     (case after_prefix ''-Infinity'' s of Some r \<Rightarrow> Some (PFloat NegInf, r) | None \<Rightarrow>
      None)))))))"

text \<open>
  The scanner. The first argument bounds the number of nested calls; \<open>json_loads\<close> gives
  two per character of the input and two more, which no input uses up. \<open>json_array\<close>
  starts at an element, \<open>json_object\<close> at the opening quote of a key.
\<close>

fun json_value :: "nat \<Rightarrow> string \<Rightarrow> (pyval \<times> string) option"
  and json_array :: "nat \<Rightarrow> pyval list \<Rightarrow> string \<Rightarrow> (pyval list \<times> string) option"
  and json_object :: "nat \<Rightarrow> (string \<times> pyval) list \<Rightarrow> string
                        \<Rightarrow> ((string \<times> pyval) list \<times> string) option" where
  "json_value 0 s = None"
| "json_value (Suc n) s =
     (case s of
        [] \<Rightarrow> None
      | c # cs \<Rightarrow>
          if c = CHR 0x22 then
            (case scan_string [] cs of None \<Rightarrow> None | Some (str, r) \<Rightarrow> Some (PStr str, r))
          else if c = CHR ''{'' then
            (case json_ws cs of
               [] \<Rightarrow> None
             | d # ds \<Rightarrow>
                 if d = CHR ''}'' then Some (PDict [], ds)
                 else (case json_object n [] (d # ds) of
                         None \<Rightarrow> None
                       | Some (kvs, r) \<Rightarrow> Some (PDict kvs, r)))
          else if c = CHR ''['' then
            (case json_ws cs of
               [] \<Rightarrow> None
             | d # ds \<Rightarrow>
                 if d = CHR '']'' then Some (PList [], ds)
                 else (case json_array n [] (d # ds) of
                         None \<Rightarrow> None
                       | Some (xs, r) \<Rightarrow> Some (PList xs, r)))
          else json_atom s)"
| "json_array 0 acc s = None"
| "json_array (Suc n) acc s =
     (case json_value n s of
        None \<Rightarrow> None
      | Some (v, r) \<Rightarrow>
          (case json_ws r of
             [] \<Rightarrow> None
           | d # ds \<Rightarrow>
               if d = CHR '']'' then Some (acc @ [v], ds)
               else if d = CHR '','' then json_array n (acc @ [v]) (json_ws ds)
               else None))"
| "json_object 0 acc s = None"
| "json_object (Suc n) acc s =
     (case s of
        [] \<Rightarrow> None
      | q # cs \<Rightarrow>
          if q \<noteq> CHR 0x22 then None
          else
            (case scan_string [] cs of
               None \<Rightarrow> None
             | Some (key, r) \<Rightarrow>
                 (case json_ws r of
                    [] \<Rightarrow> None
                  | colon # r1 \<Rightarrow>
                      if colon \<noteq> CHR '':'' then None
                      else
                        (case json_value n (json_ws r1) of
                           None \<Rightarrow> None
                         | Some (v, r2) \<Rightarrow>
                             (case json_ws r2 of
                                [] \<Rightarrow> None
                              | d # ds \<Rightarrow>
                                  if d = CHR ''}'' then Some (dict_set key v acc, ds)
                                  else if d = CHR '','' then
                                    json_object n (dict_set key v acc) (json_ws ds)
                                  else None)))))"

definition json_loads :: "string \<Rightarrow> error + pyval" where
  "json_loads s =
     (case json_value (2 * length s + 2) (json_ws s) of
        None \<Rightarrow> Inl JSONDecodeError
      | Some (v, r) \<Rightarrow> if json_ws r = [] then Inr v else Inl JSONDecodeError)"

section \<open>The stored rows\<close>

text \<open>
  \<^verbatim>\<open>models.py\<close>: the tables \<^verbatim>\<open>transcripts\<close> and \<^verbatim>\<open>recipes\<close>. A column holds what
  the handler assigned to the attribute: \<^verbatim>\<open>items\<close> and \<^verbatim>\<open>chef_notes\<close> are JSON columns,
  and the generation workflow assigns values of the service's reply to \<^verbatim>\<open>recipe_name\<close>
  and \<^verbatim>\<open>provenance\<close> without a conversion.
\<close>

record transcript =
  t_id :: int
  full_text :: string
  status :: string
  recipe_id :: "int option"

record recipe =
  r_id :: int
  recipe_name :: pyval
  provenance :: pyval
  items :: pyval
  chef_notes :: pyval

record db =
  transcripts :: "transcript list"
  recipes :: "recipe list"

section \<open>The ingredient aggregator\<close>







subsection \<open>The aggregation, as the specification describes it\<close>

text \<open>The value of a key of an object; \<^verbatim>\<open>None\<close> when the key is missing.\<close>

definition field :: "pyval \<Rightarrow> string \<Rightarrow> pyval" where
  "field item key =
     (case item of
        PDict kvs \<Rightarrow> (case map_of kvs key of None \<Rightarrow> PNone | Some v \<Rightarrow> v)
      | _ \<Rightarrow> PNone)"













subsection \<open>Example recipes\<close>




section \<open>The parser of the service's reply\<close>

text \<open>
  \<^verbatim>\<open>re.search(r"```(json)?\s*({.*})\s*```", raw_string, re.DOTALL)\<close>, group 2 of the
  leftmost match. After the opening fence and the optional tag the whitespace is skipped
  and a brace must follow (with the tag present, the alternative without it fails at the
  letter j). The greedy \<^verbatim>\<open>.*\<close> ends at the last closing brace that only whitespace
  separates from a closing fence.
\<close>

definition closes :: "string \<Rightarrow> bool" where
  "closes rest = (take 3 (dropWhile is_space rest) = ''```'')"

text \<open>The longest beginning of the text that ends in a closing brace after which the
  block closes.\<close>

fun longest_body :: "string \<Rightarrow> string option" where
  "longest_body [] = None"
| "longest_body (c # cs) =
     (case longest_body cs of
        Some p \<Rightarrow> Some (c # p)
      | None \<Rightarrow> if c = CHR ''}'' \<and> closes cs then Some [c] else None)"

text \<open>A match that starts at the first character.\<close>

definition match_here :: "string \<Rightarrow> string option" where
  "match_here s =
     (case after_prefix ''```'' s of
        None \<Rightarrow> None
      | Some r \<Rightarrow>
          (case dropWhile is_space
                  (case after_prefix ''json'' r of Some r' \<Rightarrow> r' | None \<Rightarrow> r) of
             [] \<Rightarrow> None
           | c # body \<Rightarrow>
               if c = CHR ''{'' then
                 (case longest_body body of None \<Rightarrow> None | Some p \<Rightarrow> Some (c # p))
               else None))"

fun fenced_object :: "string \<Rightarrow> string option" where
  "fenced_object [] = None"
| "fenced_object (c # cs) =
     (case match_here (c # cs) of
        Some g \<Rightarrow> Some g
      | None \<Rightarrow> fenced_object cs)"

text \<open>
  \<^verbatim>\<open>parse_llm_json_output\<close>. The return value \<^verbatim>\<open>None\<close> is \<open>Inr PNone\<close>; the
  \<^verbatim>\<open>except\<close> clause catches \<^verbatim>\<open>json.JSONDecodeError\<close> and nothing else.
\<close>

definition parse_llm_json_output :: "string \<Rightarrow> error + pyval" where
  "parse_llm_json_output raw_string =
     (if raw_string = [] then Inr PNone
      else
        (let json_string = (case fenced_object raw_string of Some g \<Rightarrow> g | None \<Rightarrow> raw_string)
         in case json_loads json_string of
              Inr v \<Rightarrow> Inr v
            | Inl e \<Rightarrow> if e = JSONDecodeError then Inr PNone else Inl e))"

text \<open>
  \<^verbatim>\<open>call_llm_for_json\<close>: the text of the service's response, or \<^verbatim>\<open>None\<close> when the
  call raises. The service is the parameter \<open>service\<close>, from the prompt to the text of the
  response, \<open>None\<close> for a call that raises.
\<close>

definition call_llm_for_json :: "(string \<Rightarrow> string option) \<Rightarrow> string \<Rightarrow> string option" where
  "call_llm_for_json service prompt = service prompt"

section \<open>The handlers\<close>

text \<open>
  A handler works in a session on the rows it loaded and the rows it added; only
  \<^verbatim>\<open>db.commit()\<close> writes the session to the database, as one transaction of the
  engine, and a handler that raises leaves the database as it was. In the model a handler
  takes the database and returns its response and the database after the request; the
  session is a value of the same type, returned as the database where the handler commits.
  The primary key of a new row is one more than the largest in its table. The rendering
  of the templates is not modelled: the response is the row the template is given.
\<close>

definition next_id :: "int list \<Rightarrow> int" where
  "next_id ids = fold max ids 0 + 1"

text \<open>The session after an assignment to attributes of the transcript with this
  primary key.\<close>

definition update_transcript :: "int \<Rightarrow> (transcript \<Rightarrow> transcript) \<Rightarrow> db \<Rightarrow> db" where
  "update_transcript i f d =
     d\<lparr>transcripts := map (\<lambda>t. if t_id t = i then f t else t) (transcripts d)\<rparr>"

definition update_recipe :: "int \<Rightarrow> (recipe \<Rightarrow> recipe) \<Rightarrow> db \<Rightarrow> db" where
  "update_recipe i f d =
     d\<lparr>recipes := map (\<lambda>r. if r_id r = i then f r else r) (recipes d)\<rparr>"

text \<open>\<^verbatim>\<open>create_transcript_and_return_editor\<close>.\<close>

definition create_transcript_and_return_editor :: "db \<Rightarrow> string \<Rightarrow> transcript \<times> db" where
  "create_transcript_and_return_editor d text =
     (let new_transcript =
            \<lparr>t_id = next_id (map t_id (transcripts d)), full_text = text,
             status = ''pending'', recipe_id = None\<rparr>
      in (new_transcript, d\<lparr>transcripts := transcripts d @ [new_transcript]\<rparr>))"

text \<open>
  \<^verbatim>\<open>generate_recipe_from_transcript\<close>. The outcome holds the response, the database
  after the request, and the prompts sent to the structuring service.
\<close>

record outcome =
  response :: "error + recipe"
  database :: db
  prompts :: "string list"

definition recipe_of_data :: "int \<Rightarrow> pyval \<Rightarrow> error + recipe" where
  "recipe_of_data new_id recipe_data =
     (case py_get recipe_data ''recipe_name'' of
        Inl e \<Rightarrow> Inl e
      | Inr name \<Rightarrow>
     (case py_get recipe_data ''provenance'' of
        Inl e \<Rightarrow> Inl e
      | Inr prov \<Rightarrow>
     (case py_get recipe_data ''items'' of
        Inl e \<Rightarrow> Inl e
      | Inr its \<Rightarrow>
     (case py_get recipe_data ''chef_notes'' of
        Inl e \<Rightarrow> Inl e
      | Inr notes \<Rightarrow>
          Inr \<lparr>r_id = new_id,
               recipe_name = py_or name (PStr ''Untitled Recipe''),
               provenance = py_or prov PNone,
               items = py_or its (PList []),
               chef_notes = py_or notes (PList [])\<rparr>))))"

definition generate_recipe_from_transcript ::
    "(string \<Rightarrow> string option) \<Rightarrow> db \<Rightarrow> int \<Rightarrow> string \<Rightarrow> outcome" where
  "generate_recipe_from_transcript service d transcript_id transcript_text =
     (case find (\<lambda>t. t_id t = transcript_id) (transcripts d) of
        None \<Rightarrow>
          \<lparr>response = Inl (HTTPException 404 ''Transcript not found''),
           database = d, prompts = []\<rparr>
      | Some transcript_obj \<Rightarrow>
          (let session = update_transcript transcript_id (\<lambda>t. t\<lparr>full_text := transcript_text\<rparr>) d;
               raw_ai_output = call_llm_for_json service transcript_text
           in case raw_ai_output of
                None \<Rightarrow>
                  \<lparr>response = Inl (HTTPException 500 ''AI service failed to respond.''),
                   database = d, prompts = [transcript_text]\<rparr>
              | Some raw \<Rightarrow>
                  if raw = [] then
                    \<lparr>response = Inl (HTTPException 500 ''AI service failed to respond.''),
                     database = d, prompts = [transcript_text]\<rparr>
                  else
                    (case parse_llm_json_output raw of
                       Inl e \<Rightarrow> \<lparr>response = Inl e, database = d, prompts = [transcript_text]\<rparr>
                     | Inr recipe_data \<Rightarrow>
                         if \<not> truthy recipe_data then
                           \<lparr>response =
                              Inl (HTTPException 500 ''AI returned an invalid recipe structure.''),
                            database = d, prompts = [transcript_text]\<rparr>
                         else
                           (case recipe_of_data (next_id (map r_id (recipes d))) recipe_data of
                              Inl e \<Rightarrow>
                                \<lparr>response = Inl e, database = d, prompts = [transcript_text]\<rparr>
                            | Inr new_recipe \<Rightarrow>
                                \<lparr>response = Inr new_recipe,
                                 database =
                                   update_transcript transcript_id
                                     (\<lambda>t. t\<lparr>recipe_id := Some (r_id new_recipe),
                                             status := ''processed''\<rparr>)
                                     (session\<lparr>recipes := recipes session @ [new_recipe]\<rparr>),
                                 prompts = [transcript_text]\<rparr>))))"

text \<open>The items that the two form handlers build:
  \<^verbatim>\<open>[{"quantity": qty, "unit": unit, "itemName": name} for qty, unit, name in
  zip(item_quantity, item_unit, item_name) if name]\<close>.\<close>

definition form_items :: "string list \<Rightarrow> string list \<Rightarrow> string list \<Rightarrow> pyval" where
  "form_items item_quantity item_unit item_name =
     PList (map (\<lambda>((qty, unit), name).
                   PDict [(''quantity'', PStr qty), (''unit'', PStr unit), (''itemName'', PStr name)])
              (filter (\<lambda>((qty, unit), name). name \<noteq> [])
                 (zip (zip item_quantity item_unit) item_name)))"

text \<open>\<^verbatim>\<open>chef_note or []\<close>, for the optional list of the form.\<close>

definition form_notes :: "string list option \<Rightarrow> pyval" where
  "form_notes chef_note = (case chef_note of None \<Rightarrow> PList [] | Some ns \<Rightarrow> PList (map PStr ns))"

text \<open>\<^verbatim>\<open>create_recipe_from_form\<close>.\<close>

definition create_recipe_from_form ::
    "db \<Rightarrow> string \<Rightarrow> string \<Rightarrow> string list \<Rightarrow> string list \<Rightarrow> string list
       \<Rightarrow> string list option \<Rightarrow> db" where
  "create_recipe_from_form d name prov item_quantity item_unit item_name chef_note =
     (let new_recipe =
            \<lparr>r_id = next_id (map r_id (recipes d)), recipe_name = PStr name,
             provenance = PStr prov,
             items = form_items item_quantity item_unit item_name,
             chef_notes = form_notes chef_note\<rparr>
      in d\<lparr>recipes := recipes d @ [new_recipe]\<rparr>)"

text \<open>\<^verbatim>\<open>update_recipe_and_return_cookbook\<close>.\<close>

definition update_recipe_and_return_cookbook ::
    "db \<Rightarrow> int \<Rightarrow> string \<Rightarrow> string \<Rightarrow> string list \<Rightarrow> string list \<Rightarrow> string list
       \<Rightarrow> string list option \<Rightarrow> error + db" where
  "update_recipe_and_return_cookbook d i name prov item_quantity item_unit item_name chef_note =
     (case find (\<lambda>r. r_id r = i) (recipes d) of
        None \<Rightarrow> Inl (HTTPException 404 ''Recipe not found'')
      | Some db_recipe \<Rightarrow>
          Inr (update_recipe i
                 (\<lambda>r. r\<lparr>recipe_name := PStr name, provenance := PStr prov,
                         items := form_items item_quantity item_unit item_name,
                         chef_notes := form_notes chef_note\<rparr>) d))"

text \<open>
  \<^verbatim>\<open>delete_recipe\<close>. The handler looks the recipe up, gives it to \<^verbatim>\<open>db.delete\<close> and
  commits; what happens to the transcripts is the work of the persistence layer, from the
  declarations of \<^verbatim>\<open>models.py\<close>:

  \<^item> \<^verbatim>\<open>Recipe.transcript = relationship("Transcript", ..., uselist=False)\<close>: when the
    session deletes a recipe, the mapper loads the transcript of this relationship, which
    is one object, the first row whose \<^verbatim>\<open>recipe_id\<close> is the id of the recipe, and sets
    its \<^verbatim>\<open>recipe_id\<close> to null before it deletes the recipe row (\<open>unlink_related\<close>);

  \<^item> \<^verbatim>\<open>ForeignKey("recipes.id", ondelete="SET NULL")\<close>: an engine that enforces foreign
    keys sets the column to null in every row that still references the deleted recipe
    (\<open>set_null\<close>). SQLite, the engine of the default \<^verbatim>\<open>DATABASE_URL\<close>, enforces them
    only on a connection that asked for it, which \<^verbatim>\<open>database.py\<close> does not do; the flag
    \<open>enforced\<close> says whether the engine of the deployment does.
\<close>

fun unlink_related :: "int \<Rightarrow> transcript list \<Rightarrow> transcript list" where
  "unlink_related i [] = []"
| "unlink_related i (t # ts) =
     (if recipe_id t = Some i then t\<lparr>recipe_id := None\<rparr> # ts else t # unlink_related i ts)"

definition set_null :: "int \<Rightarrow> transcript list \<Rightarrow> transcript list" where
  "set_null i ts = map (\<lambda>t. if recipe_id t = Some i then t\<lparr>recipe_id := None\<rparr> else t) ts"

text \<open>\<^verbatim>\<open>await db.delete(recipe_to_delete); await db.commit()\<close>.\<close>

definition delete_and_commit :: "bool \<Rightarrow> int \<Rightarrow> db \<Rightarrow> db" where
  "delete_and_commit enforced i d =
     \<lparr>transcripts = (if enforced then set_null i (unlink_related i (transcripts d))
                     else unlink_related i (transcripts d)),
      recipes = filter (\<lambda>r. r_id r \<noteq> i) (recipes d)\<rparr>"

definition delete_recipe :: "bool \<Rightarrow> db \<Rightarrow> int \<Rightarrow> error + db" where
  "delete_recipe enforced d i =
     (case find (\<lambda>r. r_id r = i) (recipes d) of
        None \<Rightarrow> Inl (HTTPException 404 ''Recipe not found'')
      | Some recipe_to_delete \<Rightarrow> Inr (delete_and_commit enforced i d))"

section \<open>What the claims speak of\<close>

text \<open>The transcript of a generation request after its commit: the corrected text, the
  link to the new recipe and the status \<^verbatim>\<open>processed\<close>; the other transcripts as they
  were.\<close>

definition linked :: "int \<Rightarrow> string \<Rightarrow> int \<Rightarrow> transcript \<Rightarrow> transcript" where
  "linked i text rid t =
     (if t_id t = i
      then t\<lparr>full_text := text, recipe_id := Some rid, status := ''processed''\<rparr>
      else t)"

text \<open>The invariant of the data model on the items of a recipe: a list of objects, each
  with the key \<^verbatim>\<open>itemName\<close>.\<close>

definition has_item_name :: "pyval \<Rightarrow> bool" where
  "has_item_name item =
     (case item of PDict kvs \<Rightarrow> map_of kvs ''itemName'' \<noteq> None | _ \<Rightarrow> False)"

definition items_ok :: "pyval \<Rightarrow> bool" where
  "items_ok v = (case v of PList xs \<Rightarrow> list_all has_item_name xs | _ \<Rightarrow> False)"

definition status_ok :: "string \<Rightarrow> bool" where
  "status_ok s = (s = ''pending'' \<or> s = ''processed'')"

definition db_ok :: "db \<Rightarrow> bool" where
  "db_ok d =
     (list_all (\<lambda>r. items_ok (items r)) (recipes d) \<and>
      list_all (\<lambda>t. status_ok (status t)) (transcripts d))"

text \<open>The constraint of \<^verbatim>\<open>schemas.RecipeCreate\<close> on the name:
  \<^verbatim>\<open>Field(..., min_length=1, max_length=100)\<close>.\<close>

definition name_ok :: "pyval \<Rightarrow> bool" where
  "name_ok v = (case v of PStr s \<Rightarrow> 1 \<le> length s \<and> length s \<le> 100 | _ \<Rightarrow> False)"

text \<open>The column \<^verbatim>\<open>recipe_name\<close> is declared \<^verbatim>\<open>nullable=False\<close>: every stored recipe
  has a name that is not null.\<close>

definition names_present :: "db \<Rightarrow> bool" where
  "names_present d = list_all (\<lambda>r. recipe_name r \<noteq> PNone) (recipes d)"

text \<open>The transcripts that reference a recipe. The data model gives a recipe at most one
  originating transcript.\<close>

definition referencing :: "int \<Rightarrow> db \<Rightarrow> transcript list" where
  "referencing i d = filter (\<lambda>t. recipe_id t = Some i) (transcripts d)"

text \<open>
  The state of the links that the handlers keep: no two transcripts have the same id, no
  two transcripts reference the same recipe, and every referenced recipe is stored.
\<close>

definition links_ok :: "db \<Rightarrow> bool" where
  "links_ok d =
     (distinct (map t_id (transcripts d)) \<and>
      list_all (\<lambda>t. case recipe_id t of
                     None \<Rightarrow> True
                   | Some i \<Rightarrow> length (referencing i d) \<le> 1 \<and> i \<in> set (map r_id (recipes d)))
        (transcripts d))"

text \<open>The values that a \<^verbatim>\<open>String\<close> column holds as they are given: text, and null.\<close>

definition text_or_null :: "pyval \<Rightarrow> bool" where
  "text_or_null v = (case v of PNone \<Rightarrow> True | PStr s \<Rightarrow> True | _ \<Rightarrow> False)"

subsection \<open>An example database and replies of the service\<close>

definition kitchen_db :: db where
  "kitchen_db =
     \<lparr>transcripts =
        [\<lparr>t_id = 1, full_text = ''cake with flour'', status = ''processed'',
          recipe_id = Some 1\<rparr>,
         \<lparr>t_id = 2, full_text = ''soup with stok'', status = ''pending'', recipe_id = None\<rparr>],
      recipes =
        [\<lparr>r_id = 1, recipe_name = PStr ''Cake'', provenance = PNone,
          items = PList [PDict [(''itemName'', PStr ''flour''), (''quantity'', PStr ''2''),
                                (''unit'', PStr ''cup'')]],
          chef_notes = PList []\<rparr>]\<rparr>"

definition soup_reply :: string where
  \<open>soup_reply = ''{"recipe_name": "Soup"}''\<close>

definition fenced_soup_reply :: string where
  \<open>fenced_soup_reply =
     ''```json'' @ [CHR 0x0A] @ ''{ "recipe_name": "Soup" }'' @ [CHR 0x0A] @ ''```''\<close>

definition nameless_reply :: string where
  \<open>nameless_reply = ''{"items": [{"itemName": "stock", "quantity": 2, "unit": "cup"}]}''\<close>

definition string_items_reply :: string where
  \<open>string_items_reply = ''{"recipe_name": "Soup", "items": ["2 cups stock", "1 onion"]}''\<close>

definition list_reply :: string where
  \<open>list_reply = ''[{"recipe_name": "Soup"}]''\<close>

section \<open>Facts about the builtins\<close>

lemma py_float_error: "py_float s = Inl e \<Longrightarrow> e = ValueError"
  by (auto simp: py_float_def split: prod.splits option.splits)


lemma py_truediv_error: "py_truediv a b = Inl e \<Longrightarrow> e = ZeroDivisionError"
  by (auto simp: py_truediv_def split: if_splits)






section \<open>The quantity parser: results\<close>

lemma fraction_error: "fraction s = Inl e \<Longrightarrow> e = ValueError \<or> e = ZeroDivisionError"
  unfolding fraction_def
  by (auto split: list.splits sum.splits dest: py_float_error py_truediv_error)



lemma parse_quantity_returns: "\<exists>r. parse_quantity s = Inr r"
proof (cases "py_float s")
  case (Inr v)
  then show ?thesis by (simp add: parse_quantity_def)
next
  case (Inl e)
  then have e: "e = ValueError" by (rule py_float_error)
  show ?thesis
  proof (cases "fraction s")
    case (Inl e')
    then have "e' = ValueError \<or> e' = ZeroDivisionError" by (rule fraction_error)
    with Inl \<open>py_float s = Inl e\<close> e show ?thesis
      by (auto simp: parse_quantity_def)
  next
    case (Inr q)
    with \<open>py_float s = Inl e\<close> e show ?thesis
      by (simp add: parse_quantity_def)
  qed
qed


text \<open>
  Claim C10. \<^verbatim>\<open>parse_quantity\<close> is total: for every string it returns a float or
  \<^verbatim>\<open>None\<close>, and no exception leaves it. The fraction branch does raise on the
  inputs the claim names (\<^verbatim>\<open>ValueError\<close> from unpacking the three parts of "1/2/3"
  and from \<^verbatim>\<open>float("a")\<close>, \<^verbatim>\<open>ZeroDivisionError\<close> from "1/0"), and
  \<^verbatim>\<open>parse_quantity\<close> turns each into \<^verbatim>\<open>None\<close>.
\<close>

theorem parse_quantity_total:
  "(\<exists>r. parse_quantity s = Inr r) \<and>
   fraction ''1/2/3'' = Inl ValueError \<and> parse_quantity ''1/2/3'' = Inr None \<and>
   fraction ''1/0'' = Inl ZeroDivisionError \<and> parse_quantity ''1/0'' = Inr None \<and>
   fraction ''a/b'' = Inl ValueError \<and> parse_quantity ''a/b'' = Inr None \<and>
   parse_quantity ''two cups'' = Inr None"
proof -
  have "fraction ''1/2/3'' = Inl ValueError" by code_simp
  moreover have "parse_quantity ''1/2/3'' = Inr None" by code_simp
  moreover have "fraction ''1/0'' = Inl ZeroDivisionError" by code_simp
  moreover have "parse_quantity ''1/0'' = Inr None" by code_simp
  moreover have "fraction ''a/b'' = Inl ValueError" by code_simp
  moreover have "parse_quantity ''a/b'' = Inr None" by code_simp
  moreover have "parse_quantity ''two cups'' = Inr None" by code_simp
  ultimately show ?thesis using parse_quantity_returns [of s] by simp
qed

section \<open>The ingredient aggregator: results\<close>

























section \<open>The handlers: results\<close>

lemma fold_max_ge: "(a::int) \<le> fold max ids a"
  by (induction ids arbitrary: a) (auto intro: order_trans[OF max.cobounded2])

lemma fold_max_mem: "x \<in> set ids \<Longrightarrow> (x::int) \<le> fold max ids a"
proof (induction ids arbitrary: a)
  case Nil
  then show ?case by simp
next
  case (Cons y ys)
  show ?case
  proof (cases "x = y")
    case True
    have "max y a \<le> fold max ys (max y a)" by (rule fold_max_ge)
    with True show ?thesis by simp
  next
    case False
    with Cons show ?thesis by simp
  qed
qed

lemma next_id_fresh: "next_id ids \<notin> set ids"
proof
  assume "next_id ids \<in> set ids"
  then have "next_id ids \<le> fold max ids 0" by (rule fold_max_mem)
  then show False by (simp add: next_id_def)
qed

lemma find_None_id: "i \<notin> set (map t_id ts) \<Longrightarrow> find (\<lambda>t. t_id t = i) ts = None"
  by (induction ts) auto

lemma find_Some_rid: "i \<in> set (map r_id rs) \<Longrightarrow> \<exists>r. find (\<lambda>r. r_id r = i) rs = Some r"
  by (induction rs) auto

lemma recipe_of_data_id: "recipe_of_data n data = Inr r \<Longrightarrow> r_id r = n"
  by (auto simp: recipe_of_data_def split: sum.splits)

lemma recipe_of_data_fields:
  "recipe_of_data n data = Inr r \<Longrightarrow>
     r = \<lparr>r_id = n,
          recipe_name = py_or (field data ''recipe_name'') (PStr ''Untitled Recipe''),
          provenance = py_or (field data ''provenance'') PNone,
          items = py_or (field data ''items'') (PList []),
          chef_notes = py_or (field data ''chef_notes'') (PList [])\<rparr>"
  by (cases data) (auto simp: recipe_of_data_def py_get_def field_def split: option.splits)

lemma generate_cases:
  "(\<exists>e. generate_recipe_from_transcript service d i body =
          \<lparr>response = Inl e, database = d, prompts = (if find (\<lambda>t. t_id t = i) (transcripts d) = None then [] else [body])\<rparr>) \<or>
   (\<exists>r raw data. service body = Some raw \<and> parse_llm_json_output raw = Inr data \<and> truthy data \<and>
        recipe_of_data (next_id (map r_id (recipes d))) data = Inr r \<and>
        find (\<lambda>t. t_id t = i) (transcripts d) \<noteq> None \<and>
        generate_recipe_from_transcript service d i body =
          \<lparr>response = Inr r,
           database = \<lparr>transcripts = map (linked i body (r_id r)) (transcripts d),
                       recipes = recipes d @ [r]\<rparr>,
           prompts = [body]\<rparr>)"
  by (auto simp: generate_recipe_from_transcript_def call_llm_for_json_def Let_def
        update_transcript_def linked_def o_def 
      split: option.splits sum.splits intro!: db.equality)

text \<open>
  Claim C3. In the generation workflow the update of the transcript (its text, status and link)
  and the insertion of the recipe are committed together or not at all: every request
  ends either with an error and the database as it was, or with the created recipe, the
  database holding the new recipe and the updated transcript. When the service call
  fails, when its reply is empty and when the reply does not parse, the request ends with
  an error and the database as it was, the stored text of the transcript included.
\<close>

theorem generate_commits_atomically:
  "((\<exists>e. response (generate_recipe_from_transcript service d i body) = Inl e \<and>
         database (generate_recipe_from_transcript service d i body) = d) \<or>
    (\<exists>r. response (generate_recipe_from_transcript service d i body) = Inr r \<and>
         database (generate_recipe_from_transcript service d i body) =
           \<lparr>transcripts = map (linked i body (r_id r)) (transcripts d),
            recipes = recipes d @ [r]\<rparr>)) \<and>
   ((service body = None \<or> service body = Some [] \<or>
     (\<exists>raw. service body = Some raw \<and> parse_llm_json_output raw = Inr PNone)) \<longrightarrow>
      (\<exists>e. response (generate_recipe_from_transcript service d i body) = Inl e) \<and>
      database (generate_recipe_from_transcript service d i body) = d)"
proof (rule conjI)
  show "(\<exists>e. response (generate_recipe_from_transcript service d i body) = Inl e \<and>
         database (generate_recipe_from_transcript service d i body) = d) \<or>
    (\<exists>r. response (generate_recipe_from_transcript service d i body) = Inr r \<and>
         database (generate_recipe_from_transcript service d i body) =
           \<lparr>transcripts = map (linked i body (r_id r)) (transcripts d),
            recipes = recipes d @ [r]\<rparr>)"
    using generate_cases [of service d i body] by auto
next
  show "(service body = None \<or> service body = Some [] \<or>
     (\<exists>raw. service body = Some raw \<and> parse_llm_json_output raw = Inr PNone)) \<longrightarrow>
      (\<exists>e. response (generate_recipe_from_transcript service d i body) = Inl e) \<and>
      database (generate_recipe_from_transcript service d i body) = d"
  proof (rule impI)
  assume fails: "service body = None \<or> service body = Some [] \<or>
     (\<exists>raw. service body = Some raw \<and> parse_llm_json_output raw = Inr PNone)"
  have "\<not> (\<exists>raw data. service body = Some raw \<and> parse_llm_json_output raw = Inr data \<and>
            truthy data \<and> raw \<noteq> [])"
    using fails by auto
  moreover have "parse_llm_json_output [] = Inr PNone"
    by (simp add: parse_llm_json_output_def)
  ultimately have "\<exists>e. generate_recipe_from_transcript service d i body =
          \<lparr>response = Inl e, database = d,
           prompts = (if find (\<lambda>t. t_id t = i) (transcripts d) = None then [] else [body])\<rparr>"
    using generate_cases [of service d i body] fails by auto
  then show "(\<exists>e. response (generate_recipe_from_transcript service d i body) = Inl e) \<and>
      database (generate_recipe_from_transcript service d i body) = d"
    by auto
  qed
qed

text \<open>Claim C3 on the example database: a failed call, a reply that is not JSON, and a
  reply that parses.\<close>

theorem generate_commits_atomically_witness:
  "database (generate_recipe_from_transcript (\<lambda>p. None) kitchen_db 2 ''soup with stock'')
     = kitchen_db \<and>
   response (generate_recipe_from_transcript (\<lambda>p. None) kitchen_db 2 ''soup with stock'')
     = Inl (HTTPException 500 ''AI service failed to respond.'') \<and>
   database (generate_recipe_from_transcript (\<lambda>p. Some ''no json'') kitchen_db 2
               ''soup with stock'') = kitchen_db \<and>
   response (generate_recipe_from_transcript (\<lambda>p. Some ''no json'') kitchen_db 2
               ''soup with stock'')
     = Inl (HTTPException 500 ''AI returned an invalid recipe structure.'') \<and>
   database (generate_recipe_from_transcript (\<lambda>p. Some soup_reply) kitchen_db 2
               ''soup with stock'') \<noteq> kitchen_db"
proof -
  have a: "response (generate_recipe_from_transcript (\<lambda>p. None) kitchen_db 2 ''soup with stock'')
     = Inl (HTTPException 500 ''AI service failed to respond.'')"
    unfolding kitchen_db_def by code_simp
  have b: "response (generate_recipe_from_transcript (\<lambda>p. Some ''no json'') kitchen_db 2
               ''soup with stock'')
     = Inl (HTTPException 500 ''AI returned an invalid recipe structure.'')"
    unfolding kitchen_db_def by code_simp
  have p: "parse_llm_json_output ''no json'' = Inr PNone"
    by code_simp
  have c: "response (generate_recipe_from_transcript (\<lambda>p. Some soup_reply) kitchen_db 2
               ''soup with stock'')
     = Inr \<lparr>r_id = 2, recipe_name = PStr ''Soup'', provenance = PNone,
            items = PList [], chef_notes = PList []\<rparr>"
    unfolding kitchen_db_def soup_reply_def by code_simp
  have d1: "database (generate_recipe_from_transcript (\<lambda>p. None) kitchen_db 2
               ''soup with stock'') = kitchen_db"
    using generate_commits_atomically [of "\<lambda>p. None" kitchen_db 2 "''soup with stock''"]
    by simp
  have d2: "database (generate_recipe_from_transcript (\<lambda>p. Some ''no json'') kitchen_db 2
               ''soup with stock'') = kitchen_db"
    using generate_commits_atomically [of "\<lambda>p. Some ''no json''" kitchen_db 2
        "''soup with stock''"] p
    by simp
  have "recipes (database (generate_recipe_from_transcript (\<lambda>p. Some soup_reply) kitchen_db 2
               ''soup with stock'')) \<noteq> recipes kitchen_db"
    using generate_commits_atomically [of "\<lambda>p. Some soup_reply" kitchen_db 2
        "''soup with stock''"] c
    by auto
  then have d3: "database (generate_recipe_from_transcript (\<lambda>p. Some soup_reply) kitchen_db 2
               ''soup with stock'') \<noteq> kitchen_db"
    by auto
  from a b d1 d2 d3 show ?thesis by simp
qed

text \<open>
  Claim C4. A generate-recipe call that succeeds creates exactly one recipe, built from the
  fields of the parsed reply: the name defaults to \<^verbatim>\<open>Untitled Recipe\<close>, the provenance
  to null, the items and the notes to the empty list, when the field is missing (or null,
  or empty). The transcript then exists, its status is \<^verbatim>\<open>processed\<close>, its text is the
  corrected text and its link is the id of the new recipe, which no other recipe has; the
  other transcripts are as they were; the created recipe is returned. The statement is for
  the replies whose name and provenance are text, null or missing: the values that the two
  \<^verbatim>\<open>String\<close> columns of \<^verbatim>\<open>models.Recipe\<close> hold as they are given.
\<close>

theorem generate_creates_linked_recipe:
  "service body = Some raw \<and> parse_llm_json_output raw = Inr data \<and>
   text_or_null (field data ''recipe_name'') \<and> text_or_null (field data ''provenance'') \<and>
   response (generate_recipe_from_transcript service d i body) = Inr r \<longrightarrow>
     recipe_name r = py_or (field data ''recipe_name'') (PStr ''Untitled Recipe'') \<and>
     provenance r = py_or (field data ''provenance'') PNone \<and>
     items r = py_or (field data ''items'') (PList []) \<and>
     chef_notes r = py_or (field data ''chef_notes'') (PList []) \<and>
     (field data ''recipe_name'' = PNone \<longrightarrow> recipe_name r = PStr ''Untitled Recipe'') \<and>
     (field data ''provenance'' = PNone \<longrightarrow> provenance r = PNone) \<and>
     (field data ''items'' = PNone \<longrightarrow> items r = PList []) \<and>
     (field data ''chef_notes'' = PNone \<longrightarrow> chef_notes r = PList []) \<and>
     i \<in> set (map t_id (transcripts d)) \<and>
     r_id r \<notin> set (map r_id (recipes d)) \<and>
     recipes (database (generate_recipe_from_transcript service d i body)) = recipes d @ [r] \<and>
     transcripts (database (generate_recipe_from_transcript service d i body)) =
       map (\<lambda>t. if t_id t = i
                 then t\<lparr>full_text := body, recipe_id := Some (r_id r), status := ''processed''\<rparr>
                 else t) (transcripts d)"
proof
  assume h: "service body = Some raw \<and> parse_llm_json_output raw = Inr data \<and>
   text_or_null (field data ''recipe_name'') \<and> text_or_null (field data ''provenance'') \<and>
   response (generate_recipe_from_transcript service d i body) = Inr r"
  let ?out = "generate_recipe_from_transcript service d i body"
  from generate_cases [of service d i body] h
  have rec: "recipe_of_data (next_id (map r_id (recipes d))) data = Inr r" and
    found: "find (\<lambda>t. t_id t = i) (transcripts d) \<noteq> None" and
    out: "?out = \<lparr>response = Inr r,
           database = \<lparr>transcripts = map (linked i body (r_id r)) (transcripts d),
                       recipes = recipes d @ [r]\<rparr>,
           prompts = [body]\<rparr>"
    by auto
  have fresh: "r_id r \<notin> set (map r_id (recipes d))"
    using recipe_of_data_id [OF rec] next_id_fresh [of "map r_id (recipes d)"] by simp
  have mem: "i \<in> set (map t_id (transcripts d))"
    using found find_None_id [of i "transcripts d"]
    by (cases "i \<in> set (map t_id (transcripts d))") simp_all
  have fields: "recipe_name r = py_or (field data ''recipe_name'') (PStr ''Untitled Recipe'') \<and>
        provenance r = py_or (field data ''provenance'') PNone \<and>
        items r = py_or (field data ''items'') (PList []) \<and>
        chef_notes r = py_or (field data ''chef_notes'') (PList [])"
    using recipe_of_data_fields [OF rec] by (cases r) simp
  have l: "linked i body (r_id r) =
       (\<lambda>t. if t_id t = i
                 then t\<lparr>full_text := body, recipe_id := Some (r_id r), status := ''processed''\<rparr>
                 else t)"
    by (simp add: linked_def fun_eq_iff)
  show "recipe_name r = py_or (field data ''recipe_name'') (PStr ''Untitled Recipe'') \<and>
     provenance r = py_or (field data ''provenance'') PNone \<and>
     items r = py_or (field data ''items'') (PList []) \<and>
     chef_notes r = py_or (field data ''chef_notes'') (PList []) \<and>
     (field data ''recipe_name'' = PNone \<longrightarrow> recipe_name r = PStr ''Untitled Recipe'') \<and>
     (field data ''provenance'' = PNone \<longrightarrow> provenance r = PNone) \<and>
     (field data ''items'' = PNone \<longrightarrow> items r = PList []) \<and>
     (field data ''chef_notes'' = PNone \<longrightarrow> chef_notes r = PList []) \<and>
     i \<in> set (map t_id (transcripts d)) \<and>
     r_id r \<notin> set (map r_id (recipes d)) \<and>
     recipes (database ?out) = recipes d @ [r] \<and>
     transcripts (database ?out) =
       map (\<lambda>t. if t_id t = i
                 then t\<lparr>full_text := body, recipe_id := Some (r_id r), status := ''processed''\<rparr>
                 else t) (transcripts d)"
    using fields mem fresh by (auto simp: out l py_or_def)
qed

text \<open>Claim C4 on the example database, for a reply without a name.\<close>

theorem generate_creates_linked_recipe_witness:
  "parse_llm_json_output nameless_reply =
     Inr (PDict [(''items'', PList [PDict [(''itemName'', PStr ''stock''), (''quantity'', PInt 2),
                                           (''unit'', PStr ''cup'')]])]) \<and>
   response (generate_recipe_from_transcript (\<lambda>p. Some nameless_reply) kitchen_db 2
               ''soup with stock'') =
     Inr \<lparr>r_id = 2, recipe_name = PStr ''Untitled Recipe'', provenance = PNone,
          items = PList [PDict [(''itemName'', PStr ''stock''), (''quantity'', PInt 2),
                                (''unit'', PStr ''cup'')]],
          chef_notes = PList []\<rparr> \<and>
   recipes (database (generate_recipe_from_transcript (\<lambda>p. Some nameless_reply) kitchen_db 2
               ''soup with stock'')) =
     recipes kitchen_db @
       [\<lparr>r_id = 2, recipe_name = PStr ''Untitled Recipe'', provenance = PNone,
          items = PList [PDict [(''itemName'', PStr ''stock''), (''quantity'', PInt 2),
                                (''unit'', PStr ''cup'')]],
          chef_notes = PList []\<rparr>] \<and>
   transcripts (database (generate_recipe_from_transcript (\<lambda>p. Some nameless_reply) kitchen_db 2
               ''soup with stock'')) =
     [\<lparr>t_id = 1, full_text = ''cake with flour'', status = ''processed'', recipe_id = Some 1\<rparr>,
      \<lparr>t_id = 2, full_text = ''soup with stock'', status = ''processed'', recipe_id = Some 2\<rparr>]"
proof -
  have p: "parse_llm_json_output nameless_reply =
     Inr (PDict [(''items'', PList [PDict [(''itemName'', PStr ''stock''), (''quantity'', PInt 2),
                                           (''unit'', PStr ''cup'')]])])"
    unfolding nameless_reply_def by code_simp
  have r: "response (generate_recipe_from_transcript (\<lambda>p. Some nameless_reply) kitchen_db 2
               ''soup with stock'') =
     Inr \<lparr>r_id = 2, recipe_name = PStr ''Untitled Recipe'', provenance = PNone,
          items = PList [PDict [(''itemName'', PStr ''stock''), (''quantity'', PInt 2),
                                (''unit'', PStr ''cup'')]],
          chef_notes = PList []\<rparr>"
    unfolding kitchen_db_def nameless_reply_def by code_simp
  have t: "transcripts kitchen_db =
     [\<lparr>t_id = 1, full_text = ''cake with flour'', status = ''processed'', recipe_id = Some 1\<rparr>,
      \<lparr>t_id = 2, full_text = ''soup with stok'', status = ''pending'', recipe_id = None\<rparr>]"
    by (simp add: kitchen_db_def)
  show ?thesis
    using generate_creates_linked_recipe [where service = "\<lambda>p. Some nameless_reply"
        and d = kitchen_db and i = 2 and body = "''soup with stock''" and raw = nameless_reply
        and data = "PDict [(''items'', PList [PDict [(''itemName'', PStr ''stock''),
                      (''quantity'', PInt 2), (''unit'', PStr ''cup'')]])]"
        and r = "\<lparr>r_id = 2, recipe_name = PStr ''Untitled Recipe'', provenance = PNone,
          items = PList [PDict [(''itemName'', PStr ''stock''), (''quantity'', PInt 2),
                                (''unit'', PStr ''cup'')]],
          chef_notes = PList []\<rparr>"] p r
    by (simp add: t field_def text_or_null_def)
qed

text \<open>
  Claim C6. For a transcript id that no stored transcript has, the request fails with
  HTTP 404 "Transcript not found", no prompt is sent to the structuring service, and the
  database is as it was.
\<close>

theorem generate_unknown_transcript:
  "i \<notin> set (map t_id (transcripts d)) \<longrightarrow>
     generate_recipe_from_transcript service d i body =
       \<lparr>response = Inl (HTTPException 404 ''Transcript not found''),
        database = d, prompts = []\<rparr>"
  by (simp add: generate_recipe_from_transcript_def find_None_id)

text \<open>Claim C6 on the example database, for the id 7.\<close>

theorem generate_unknown_transcript_witness:
  "(7::int) \<notin> set (map t_id (transcripts kitchen_db)) \<and>
   generate_recipe_from_transcript (\<lambda>p. Some soup_reply) kitchen_db 7 ''soup with stock'' =
     \<lparr>response = Inl (HTTPException 404 ''Transcript not found''),
      database = kitchen_db, prompts = []\<rparr>"
proof -
  have "(7::int) \<notin> set (map t_id (transcripts kitchen_db))"
    by (simp add: kitchen_db_def)
  then show ?thesis
    using generate_unknown_transcript [of 7 kitchen_db "\<lambda>p. Some soup_reply" "''soup with stock''"]
    by simp
qed

lemma unlink_related_single:
  "length (filter (\<lambda>t. recipe_id t = Some i) ts) \<le> 1 \<Longrightarrow> unlink_related i ts = set_null i ts"
proof (induction ts)
  case Nil
  then show ?case by (simp add: set_null_def)
next
  case (Cons t ts)
  show ?case
  proof (cases "recipe_id t = Some i")
    case True
    with Cons.prems have "filter (\<lambda>t. recipe_id t = Some i) ts = []" by simp
    then have "\<forall>u \<in> set ts. recipe_id u \<noteq> Some i"
      by (simp add: filter_empty_conv)
    then have "map (\<lambda>t. if recipe_id t = Some i then t\<lparr>recipe_id := None\<rparr> else t) ts = ts"
      by (simp add: map_idI)
    with True show ?thesis by (simp add: set_null_def)
  next
    case False
    with Cons show ?thesis by (simp add: set_null_def)
  qed
qed

lemma set_null_idem: "set_null i (set_null i ts) = set_null i ts"
  by (simp add: set_null_def)

text \<open>
  Claim C7. Deleting a recipe that one transcript references (or none) removes its row and
  sets to null the link of the referencing transcript; every transcript row stays, in its
  place, with its id, its text and its status, and the links to other recipes are as they
  were. This holds whether or not the engine enforces the foreign key.
\<close>

theorem delete_recipe_clears_link:
  "i \<in> set (map r_id (recipes d)) \<and> length (referencing i d) \<le> 1 \<longrightarrow>
     (\<exists>d'. delete_recipe enforced d i = Inr d' \<and>
        i \<notin> set (map r_id (recipes d')) \<and>
        recipes d' = filter (\<lambda>r. r_id r \<noteq> i) (recipes d) \<and>
        referencing i d' = [] \<and>
        map t_id (transcripts d') = map t_id (transcripts d) \<and>
        map full_text (transcripts d') = map full_text (transcripts d) \<and>
        map status (transcripts d') = map status (transcripts d) \<and>
        map recipe_id (transcripts d') =
          map (\<lambda>t. if recipe_id t = Some i then None else recipe_id t) (transcripts d))"
proof
  assume h: "i \<in> set (map r_id (recipes d)) \<and> length (referencing i d) \<le> 1"
  then obtain r where f: "find (\<lambda>r. r_id r = i) (recipes d) = Some r"
    using find_Some_rid by blast
  from h have u: "unlink_related i (transcripts d) = set_null i (transcripts d)"
    by (simp add: unlink_related_single referencing_def)
  have d': "delete_recipe enforced d i =
      Inr \<lparr>transcripts = set_null i (transcripts d),
           recipes = filter (\<lambda>r. r_id r \<noteq> i) (recipes d)\<rparr>"
    by (simp add: delete_recipe_def delete_and_commit_def f u set_null_idem)
  have e: "filter (\<lambda>t. recipe_id t = Some i) (set_null i (transcripts d)) = []"
    by (auto simp: set_null_def filter_empty_conv)
  show "\<exists>d'. delete_recipe enforced d i = Inr d' \<and>
        i \<notin> set (map r_id (recipes d')) \<and>
        recipes d' = filter (\<lambda>r. r_id r \<noteq> i) (recipes d) \<and>
        referencing i d' = [] \<and>
        map t_id (transcripts d') = map t_id (transcripts d) \<and>
        map full_text (transcripts d') = map full_text (transcripts d) \<and>
        map status (transcripts d') = map status (transcripts d) \<and>
        map recipe_id (transcripts d') =
          map (\<lambda>t. if recipe_id t = Some i then None else recipe_id t) (transcripts d)"
    unfolding d' using e by (auto simp: set_null_def referencing_def)
qed

text \<open>Claim C7 on the example database: recipe 1, referenced by transcript 1, on an engine
  that does not enforce the foreign key.\<close>

theorem delete_recipe_clears_link_witness:
  "(1::int) \<in> set (map r_id (recipes kitchen_db)) \<and>
   length (referencing 1 kitchen_db) = 1 \<and>
   delete_recipe False kitchen_db 1 =
     Inr \<lparr>transcripts =
            [\<lparr>t_id = 1, full_text = ''cake with flour'', status = ''processed'',
              recipe_id = None\<rparr>,
             \<lparr>t_id = 2, full_text = ''soup with stok'', status = ''pending'',
              recipe_id = None\<rparr>],
          recipes = []\<rparr> \<and>
   (\<exists>d'. delete_recipe False kitchen_db 1 = Inr d' \<and>
      map t_id (transcripts d') = map t_id (transcripts kitchen_db) \<and>
      map full_text (transcripts d') = map full_text (transcripts kitchen_db) \<and>
      map status (transcripts d') = map status (transcripts kitchen_db))"
proof -
  have m: "(1::int) \<in> set (map r_id (recipes kitchen_db))"
    by (simp add: kitchen_db_def)
  have l: "length (referencing 1 kitchen_db) = 1"
    by (simp add: kitchen_db_def referencing_def)
  have e: "delete_recipe False kitchen_db 1 =
     Inr \<lparr>transcripts =
            [\<lparr>t_id = 1, full_text = ''cake with flour'', status = ''processed'',
              recipe_id = None\<rparr>,
             \<lparr>t_id = 2, full_text = ''soup with stok'', status = ''pending'',
              recipe_id = None\<rparr>],
          recipes = []\<rparr>"
    unfolding kitchen_db_def by code_simp
  from m l e show ?thesis
    using delete_recipe_clears_link [of 1 kitchen_db False] by auto
qed

text \<open>
  Claim C5 fails on the code. For a reply that is a JSON array, \<^verbatim>\<open>json.loads\<close> returns
  a list and \<^verbatim>\<open>parse_llm_json_output\<close> returns it, although the function is
  annotated \<^verbatim>\<open>dict | None\<close>; the caller then raises \<^verbatim>\<open>AttributeError\<close> at
  \<^verbatim>\<open>recipe_data.get\<close> instead of reporting an invalid structure. The rest of the claim
  holds on the examples: the fenced and the bare object give the object, and text that is
  not JSON gives \<^verbatim>\<open>None\<close>.
\<close>

theorem parse_llm_json_output_returns_list:
  "parse_llm_json_output list_reply = Inr (PList [PDict [(''recipe_name'', PStr ''Soup'')]]) \<and>
   parse_llm_json_output ''42'' = Inr (PInt 42) \<and>
   response (generate_recipe_from_transcript (\<lambda>p. Some list_reply) kitchen_db 2
               ''soup with stock'') = Inl AttributeError \<and>
   parse_llm_json_output fenced_soup_reply = Inr (PDict [(''recipe_name'', PStr ''Soup'')]) \<and>
   parse_llm_json_output soup_reply = Inr (PDict [(''recipe_name'', PStr ''Soup'')]) \<and>
   parse_llm_json_output ''Here is the recipe you asked for.'' = Inr PNone"
proof -
  have "parse_llm_json_output list_reply = Inr (PList [PDict [(''recipe_name'', PStr ''Soup'')]])"
    unfolding list_reply_def by code_simp
  moreover have "parse_llm_json_output ''42'' = Inr (PInt 42)"
    by code_simp
  moreover have "response (generate_recipe_from_transcript (\<lambda>p. Some list_reply) kitchen_db 2
               ''soup with stock'') = Inl AttributeError"
    unfolding list_reply_def kitchen_db_def by code_simp
  moreover have "parse_llm_json_output fenced_soup_reply =
      Inr (PDict [(''recipe_name'', PStr ''Soup'')])"
    unfolding fenced_soup_reply_def by code_simp
  moreover have "parse_llm_json_output soup_reply = Inr (PDict [(''recipe_name'', PStr ''Soup'')])"
    unfolding soup_reply_def by code_simp
  moreover have "parse_llm_json_output ''Here is the recipe you asked for.'' = Inr PNone"
    by code_simp
  ultimately show ?thesis by simp
qed

text \<open>
  Claim C8 fails on the code. The example database satisfies the invariant; the generation
  workflow, for a reply whose items are strings, commits a recipe whose items are those
  strings, and the invariant on the items no longer holds. The status of every transcript
  is still one of the two values.
\<close>

theorem generate_stores_unchecked_items:
  "db_ok kitchen_db \<and>
   response (generate_recipe_from_transcript (\<lambda>p. Some string_items_reply) kitchen_db 2
               ''soup with stock'') =
     Inr \<lparr>r_id = 2, recipe_name = PStr ''Soup'', provenance = PNone,
          items = PList [PStr ''2 cups stock'', PStr ''1 onion''], chef_notes = PList []\<rparr> \<and>
   \<not> db_ok (database (generate_recipe_from_transcript (\<lambda>p. Some string_items_reply)
                kitchen_db 2 ''soup with stock'')) \<and>
   list_all (\<lambda>t. status_ok (status t))
     (transcripts (database (generate_recipe_from_transcript (\<lambda>p. Some string_items_reply)
                kitchen_db 2 ''soup with stock'')))"
proof -
  have "db_ok kitchen_db"
    unfolding kitchen_db_def by code_simp
  moreover have "response (generate_recipe_from_transcript (\<lambda>p. Some string_items_reply)
               kitchen_db 2 ''soup with stock'') =
     Inr \<lparr>r_id = 2, recipe_name = PStr ''Soup'', provenance = PNone,
          items = PList [PStr ''2 cups stock'', PStr ''1 onion''], chef_notes = PList []\<rparr>"
    unfolding kitchen_db_def string_items_reply_def by code_simp
  moreover have "\<not> db_ok (database (generate_recipe_from_transcript
               (\<lambda>p. Some string_items_reply) kitchen_db 2 ''soup with stock''))"
    unfolding kitchen_db_def string_items_reply_def by code_simp
  moreover have "list_all (\<lambda>t. status_ok (status t))
     (transcripts (database (generate_recipe_from_transcript (\<lambda>p. Some string_items_reply)
                kitchen_db 2 ''soup with stock'')))"
    unfolding kitchen_db_def string_items_reply_def by code_simp
  ultimately show ?thesis by simp
qed

text \<open>
  Claim C9 fails on the code. The names of the example database are within the bounds;
  the form handler stores a name of 101 characters as it is, and the stored names are no
  longer all within the bounds: the constraint of \<^verbatim>\<open>schemas.RecipeCreate\<close> is applied
  nowhere.
\<close>

theorem create_recipe_stores_long_name:
  "list_all (\<lambda>r. name_ok (recipe_name r)) (recipes kitchen_db) \<and>
   recipes (create_recipe_from_form kitchen_db (replicate 101 CHR ''a'') [] [''2''] [''cup'']
              [''flour''] None) =
     recipes kitchen_db @
       [\<lparr>r_id = 2, recipe_name = PStr (replicate 101 CHR ''a''), provenance = PStr [],
         items = PList [PDict [(''quantity'', PStr ''2''), (''unit'', PStr ''cup''),
                               (''itemName'', PStr ''flour'')]],
         chef_notes = PList []\<rparr>] \<and>
   \<not> name_ok (PStr (replicate 101 CHR ''a'')) \<and>
   \<not> list_all (\<lambda>r. name_ok (recipe_name r))
       (recipes (create_recipe_from_form kitchen_db (replicate 101 CHR ''a'') [] [''2''] [''cup'']
                   [''flour''] None))"
proof -
  have a: "list_all (\<lambda>r. name_ok (recipe_name r)) (recipes kitchen_db)"
    by (simp add: kitchen_db_def name_ok_def)
  have b: "recipes (create_recipe_from_form kitchen_db (replicate 101 CHR ''a'') [] [''2'']
              [''cup''] [''flour''] None) =
     recipes kitchen_db @
       [\<lparr>r_id = 2, recipe_name = PStr (replicate 101 CHR ''a''), provenance = PStr [],
         items = PList [PDict [(''quantity'', PStr ''2''), (''unit'', PStr ''cup''),
                               (''itemName'', PStr ''flour'')]],
         chef_notes = PList []\<rparr>]"
    by (simp add: create_recipe_from_form_def kitchen_db_def next_id_def form_items_def
        form_notes_def)
  have c: "\<not> name_ok (PStr (replicate 101 CHR ''a''))"
    by (simp add: name_ok_def)
  from a b c show ?thesis
    by simp
qed

lemma match_here_brace: "match_here s = Some g \<Longrightarrow> \<exists>b. g = CHR ''{'' # b"
  by (auto simp: match_here_def split: option.splits list.splits if_splits)

lemma fenced_object_brace: "fenced_object s = Some g \<Longrightarrow> \<exists>b. g = CHR ''{'' # b"
  by (induction s) (auto split: option.splits dest: match_here_brace)

lemma json_value_brace:
  "json_value n (CHR ''{'' # b) = Some (v, r) \<Longrightarrow> \<exists>kvs. v = PDict kvs"
  by (cases n) (auto split: list.splits option.splits if_splits)

lemma json_loads_brace:
  assumes "json_loads (CHR ''{'' # b) = Inr v"
  shows "\<exists>kvs. v = PDict kvs"
proof -
  have ws: "json_ws (CHR ''{'' # b) = CHR ''{'' # b"
    by (simp add: json_ws_def)
  from assms obtain r
    where "json_value (2 * length (CHR ''{'' # b) + 2) (CHR ''{'' # b) = Some (v, r)"
    unfolding json_loads_def ws
    by (auto split: option.splits if_splits simp del: json_value.simps length_Cons list.size)
  then show ?thesis by (rule json_value_brace)
qed

text \<open>
  When the reply holds a fenced block, the text that goes to \<^verbatim>\<open>json.loads\<close> starts with
  a brace, so a value that \<^verbatim>\<open>parse_llm_json_output\<close> returns is an object or \<^verbatim>\<open>None\<close>.
  Only a reply without a fenced block can give a value of another kind.
\<close>

theorem fenced_reply_gives_object:
  "fenced_object raw \<noteq> None \<and> parse_llm_json_output raw = Inr v \<longrightarrow>
     v = PNone \<or> (\<exists>kvs. v = PDict kvs)"
proof
  assume h: "fenced_object raw \<noteq> None \<and> parse_llm_json_output raw = Inr v"
  then obtain b where g: "fenced_object raw = Some (CHR ''{'' # b)"
    using fenced_object_brace by fastforce
  then have ne: "raw \<noteq> []" by auto
  show "v = PNone \<or> (\<exists>kvs. v = PDict kvs)"
  proof (cases "json_loads (CHR ''{'' # b)")
    case (Inl e)
    with h g ne show ?thesis
      by (simp add: parse_llm_json_output_def split: if_splits)
  next
    case (Inr w)
    then obtain kvs where "w = PDict kvs" using json_loads_brace by blast
    with Inr h g ne show ?thesis by (auto simp: parse_llm_json_output_def)
  qed
qed

text \<open>The fenced example of the specification.\<close>

theorem fenced_reply_gives_object_witness:
  "fenced_object fenced_soup_reply \<noteq> None \<and>
   parse_llm_json_output fenced_soup_reply = Inr (PDict [(''recipe_name'', PStr ''Soup'')])"
proof -
  have "fenced_object fenced_soup_reply \<noteq> None"
    unfolding fenced_soup_reply_def by code_simp
  moreover have "parse_llm_json_output fenced_soup_reply =
      Inr (PDict [(''recipe_name'', PStr ''Soup'')])"
    unfolding fenced_soup_reply_def by code_simp
  ultimately show ?thesis
    using fenced_reply_gives_object [of fenced_soup_reply "PDict [(''recipe_name'', PStr ''Soup'')]"]
    by simp
qed

lemma items_ok_form_items: "items_ok (form_items qs us ns)"
  by (auto simp: items_ok_def form_items_def list_all_iff has_item_name_def)

lemma status_ok_linked: "status_ok (status t) \<Longrightarrow> status_ok (status (linked i body rid t))"
  by (simp add: linked_def status_ok_def)

text \<open>
  The invariant of the data model under the handlers that keep it: transcript creation
  and the two form handlers keep the items of every stored recipe a list of objects with
  \<^verbatim>\<open>itemName\<close> and the status of every transcript one of the two values; the generation
  workflow keeps the statuses.
\<close>

theorem form_handlers_keep_invariant:
  "db_ok d \<longrightarrow>
     db_ok (snd (create_transcript_and_return_editor d body)) \<and>
     db_ok (create_recipe_from_form d name prov qs us ns notes) \<and>
     (case update_recipe_and_return_cookbook d i name prov qs us ns notes of
        Inr d' \<Rightarrow> db_ok d' | Inl e \<Rightarrow> True) \<and>
     list_all (\<lambda>t. status_ok (status t))
       (transcripts (database (generate_recipe_from_transcript service d i body)))"
proof
  assume ok: "db_ok d"
  have 1: "db_ok (snd (create_transcript_and_return_editor d body))"
    using ok by (simp add: create_transcript_and_return_editor_def db_ok_def Let_def status_ok_def)
  have 2: "db_ok (create_recipe_from_form d name prov qs us ns notes)"
    using ok by (simp add: create_recipe_from_form_def db_ok_def Let_def items_ok_form_items)
  have 3: "(case update_recipe_and_return_cookbook d i name prov qs us ns notes of
        Inr d' \<Rightarrow> db_ok d' | Inl e \<Rightarrow> True)"
    using ok
    by (auto simp: update_recipe_and_return_cookbook_def update_recipe_def db_ok_def
          list_all_iff items_ok_form_items split: option.splits)
  have 4: "list_all (\<lambda>t. status_ok (status t))
       (transcripts (database (generate_recipe_from_transcript service d i body)))"
    using ok generate_cases [of service d i body]
    by (auto simp: db_ok_def list_all_iff status_ok_linked)
  from 1 2 3 4 show "db_ok (snd (create_transcript_and_return_editor d body)) \<and>
     db_ok (create_recipe_from_form d name prov qs us ns notes) \<and>
     (case update_recipe_and_return_cookbook d i name prov qs us ns notes of
        Inr d' \<Rightarrow> db_ok d' | Inl e \<Rightarrow> True) \<and>
     list_all (\<lambda>t. status_ok (status t))
       (transcripts (database (generate_recipe_from_transcript service d i body)))"
    by simp
qed

text \<open>The invariant on the example database, after a transcript and after a recipe of
  the form whose second item has no name.\<close>

theorem form_handlers_keep_invariant_witness:
  "db_ok kitchen_db \<and>
   db_ok (snd (create_transcript_and_return_editor kitchen_db ''two eggs'')) \<and>
   db_ok (create_recipe_from_form kitchen_db ''Omelette'' [] [''2'', ''1''] [''count'', ''g'']
            [''Egg'', ''''] None)"
proof -
  have "db_ok kitchen_db"
    unfolding kitchen_db_def by code_simp
  then show ?thesis
    using form_handlers_keep_invariant [of kitchen_db "''two eggs''" "''Omelette''" "[]"
        "[''2'', ''1'']" "[''count'', ''g'']" "[''Egg'', '''']" None]
    by simp
qed

lemma py_or_not_None: "b \<noteq> PNone \<Longrightarrow> py_or a b \<noteq> PNone"
  by (cases a) (auto simp: py_or_def)

text \<open>
  Every way of creating or updating a recipe stores a name that is not null: the form
  handlers store the submitted string, the generation workflow the name of the reply or
  \<^verbatim>\<open>Untitled Recipe\<close>.
\<close>

theorem handlers_store_a_name:
  "names_present d \<longrightarrow>
     names_present (create_recipe_from_form d name prov qs us ns notes) \<and>
     (case update_recipe_and_return_cookbook d i name prov qs us ns notes of
        Inr d' \<Rightarrow> names_present d' | Inl e \<Rightarrow> True) \<and>
     names_present (database (generate_recipe_from_transcript service d i body))"
proof
  assume ok: "names_present d"
  have 1: "names_present (create_recipe_from_form d name prov qs us ns notes)"
    using ok by (simp add: create_recipe_from_form_def names_present_def Let_def)
  have 2: "(case update_recipe_and_return_cookbook d i name prov qs us ns notes of
        Inr d' \<Rightarrow> names_present d' | Inl e \<Rightarrow> True)"
    using ok
    by (auto simp: update_recipe_and_return_cookbook_def update_recipe_def names_present_def
          list_all_iff split: option.splits)
  have 3: "names_present (database (generate_recipe_from_transcript service d i body))"
  proof -
    from generate_cases [of service d i body]
    consider
      (err) "database (generate_recipe_from_transcript service d i body) = d" |
      (new) r data where
        "recipe_of_data (next_id (map r_id (recipes d))) data = Inr r"
        "recipes (database (generate_recipe_from_transcript service d i body)) = recipes d @ [r]"
      by auto
    then show ?thesis
    proof cases
      case err
      with ok show ?thesis by simp
    next
      case new
      from recipe_of_data_fields [OF new(1)]
      have "recipe_name r = py_or (field data ''recipe_name'') (PStr ''Untitled Recipe'')"
        by (cases r) simp
      then have "recipe_name r \<noteq> PNone"
        by (simp add: py_or_not_None)
      with ok new(2) show ?thesis
        by (simp add: names_present_def)
    qed
  qed
  from 1 2 3 show "names_present (create_recipe_from_form d name prov qs us ns notes) \<and>
     (case update_recipe_and_return_cookbook d i name prov qs us ns notes of
        Inr d' \<Rightarrow> names_present d' | Inl e \<Rightarrow> True) \<and>
     names_present (database (generate_recipe_from_transcript service d i body))"
    by simp
qed

text \<open>The names of the example database, after a reply without a name.\<close>

theorem handlers_store_a_name_witness:
  "names_present kitchen_db \<and>
   names_present (database (generate_recipe_from_transcript (\<lambda>p. Some nameless_reply)
                    kitchen_db 2 ''soup with stock''))"
proof -
  have "names_present kitchen_db"
    unfolding kitchen_db_def by code_simp
  then show ?thesis
    using handlers_store_a_name [where d = kitchen_db and i = 2
        and service = "\<lambda>p. Some nameless_reply" and body = "''soup with stock''"]
    by simp
qed

lemma links_ok_iff:
  "links_ok d \<longleftrightarrow>
     distinct (map t_id (transcripts d)) \<and>
     (\<forall>t \<in> set (transcripts d). \<forall>j. recipe_id t = Some j \<longrightarrow>
        length (filter (\<lambda>t. recipe_id t = Some j) (transcripts d)) \<le> 1 \<and>
        j \<in> set (map r_id (recipes d)))"
  by (auto simp: links_ok_def referencing_def list_all_iff split: option.splits)

lemma links_ok_empty: "links_ok \<lparr>transcripts = [], recipes = []\<rparr>"
  by (simp add: links_ok_iff)

lemma links_ok_create_transcript:
  assumes "links_ok d"
  shows "links_ok (snd (create_transcript_and_return_editor d body))"
  using assms next_id_fresh [of "map t_id (transcripts d)"]
  by (auto simp: links_ok_iff create_transcript_and_return_editor_def Let_def)

lemma links_ok_create_recipe:
  assumes "links_ok d"
  shows "links_ok (create_recipe_from_form d name prov qs us ns notes)"
  using assms by (auto simp: links_ok_iff create_recipe_from_form_def Let_def)

lemma r_id_update:
  "map r_id (map (\<lambda>r. if r_id r = i
                        then r\<lparr>recipe_name := a, provenance := b, items := c, chef_notes := e\<rparr>
                        else r) rs) = map r_id rs"
  by (induction rs) auto

lemma links_ok_update:
  assumes "links_ok d" "update_recipe_and_return_cookbook d i name prov qs us ns notes = Inr d'"
  shows "links_ok d'"
proof -
  from assms(2) have t: "transcripts d' = transcripts d"
    and r: "map r_id (recipes d') = map r_id (recipes d)"
    by (auto simp: update_recipe_and_return_cookbook_def update_recipe_def r_id_update
        split: option.splits)
  with assms(1) show ?thesis
    by (simp add: links_ok_iff)
qed

lemma distinct_filter_le_1:
  "distinct (map f xs) \<Longrightarrow> length (filter (\<lambda>x. f x = a) xs) \<le> 1"
proof (induction xs)
  case Nil
  then show ?case by simp
next
  case (Cons x xs)
  show ?case
  proof (cases "f x = a")
    case True
    with Cons.prems have "\<forall>y \<in> set xs. f y \<noteq> a" by (auto simp: image_iff)
    then have "filter (\<lambda>x. f x = a) xs = []" by (simp add: filter_empty_conv)
    with True show ?thesis by simp
  next
    case False
    with Cons show ?thesis by simp
  qed
qed

lemma filter_mono_length:
  "(\<And>x. x \<in> set xs \<Longrightarrow> Q x \<Longrightarrow> P x) \<Longrightarrow> length (filter Q xs) \<le> length (filter P xs)"
  by (induction xs) auto

lemma links_ok_referencing:
  assumes "links_ok d"
  shows "length (referencing i d) \<le> 1"
proof (cases "\<exists>t \<in> set (transcripts d). recipe_id t = Some i")
  case True
  with assms show ?thesis by (auto simp: links_ok_iff referencing_def)
next
  case False
  then have "filter (\<lambda>t. recipe_id t = Some i) (transcripts d) = []"
    by (simp add: filter_empty_conv)
  then show ?thesis by (simp add: referencing_def)
qed

lemma links_ok_generate:
  assumes ok: "links_ok d"
  shows "links_ok (database (generate_recipe_from_transcript service d i body))"
proof -
  let ?out = "generate_recipe_from_transcript service d i body"
  from generate_cases [of service d i body]
  consider (err) "database ?out = d" |
    (new) r data where "recipe_of_data (next_id (map r_id (recipes d))) data = Inr r"
      "database ?out = \<lparr>transcripts = map (linked i body (r_id r)) (transcripts d),
                       recipes = recipes d @ [r]\<rparr>"
    by auto
  then show ?thesis
  proof cases
    case err
    with ok show ?thesis by simp
  next
    case new
    let ?n = "r_id r"
    let ?ts = "transcripts d"
    have fresh: "?n \<notin> set (map r_id (recipes d))"
      using recipe_of_data_id [OF new(1)] next_id_fresh [of "map r_id (recipes d)"] by simp
    from ok have dist: "distinct (map t_id ?ts)" and
      refs: "\<And>t j. t \<in> set ?ts \<Longrightarrow> recipe_id t = Some j \<Longrightarrow>
         length (filter (\<lambda>t. recipe_id t = Some j) ?ts) \<le> 1 \<and> j \<in> set (map r_id (recipes d))"
      by (auto simp: links_ok_iff)
    have notn: "\<And>t. t \<in> set ?ts \<Longrightarrow> recipe_id t \<noteq> Some ?n"
      using refs fresh by blast
    have ids: "map t_id (map (linked i body ?n) ?ts) = map t_id ?ts"
      by (simp add: linked_def o_def)
    have one: "length (filter (\<lambda>t. recipe_id t = Some j) (map (linked i body ?n) ?ts)) \<le> 1"
      if "t \<in> set ?ts" "recipe_id (linked i body ?n t) = Some j" for t j
    proof (cases "j = ?n")
      case True
      have "length (filter (\<lambda>t. recipe_id t = Some j) (map (linked i body ?n) ?ts)) =
            length (filter (\<lambda>t. recipe_id (linked i body ?n t) = Some j) ?ts)"
        by (simp add: filter_map o_def)
      also have "\<dots> \<le> length (filter (\<lambda>t. t_id t = i) ?ts)"
        using notn True by (intro filter_mono_length) (auto simp: linked_def split: if_splits)
      also have "\<dots> \<le> 1" using dist by (rule distinct_filter_le_1)
      finally show ?thesis .
    next
      case False
      with that have old: "recipe_id t = Some j" by (auto simp: linked_def split: if_splits)
      have "length (filter (\<lambda>t. recipe_id t = Some j) (map (linked i body ?n) ?ts)) =
            length (filter (\<lambda>t. recipe_id (linked i body ?n t) = Some j) ?ts)"
        by (simp add: filter_map o_def)
      also have "\<dots> \<le> length (filter (\<lambda>t. recipe_id t = Some j) ?ts)"
        using False by (intro filter_mono_length) (auto simp: linked_def split: if_splits)
      also have "\<dots> \<le> 1" using refs [OF that(1) old] by simp
      finally show ?thesis .
    qed
    have mem: "j \<in> set (map r_id (recipes d @ [r]))"
      if "t \<in> set ?ts" "recipe_id (linked i body ?n t) = Some j" for t j
      using that refs [of t j] by (auto simp: linked_def split: if_splits)
    show ?thesis
      unfolding new(2) links_ok_iff using dist one mem by (auto simp: ids simp del: map_map)
  qed
qed

lemma links_ok_delete:
  assumes ok: "links_ok d" and del: "delete_recipe enforced d i = Inr d'"
  shows "links_ok d'"
proof -
  let ?ts = "transcripts d"
  have u: "unlink_related i ?ts = set_null i ?ts"
    using links_ok_referencing [OF ok, of i] by (simp add: unlink_related_single referencing_def)
  from del have d': "d' = \<lparr>transcripts = set_null i ?ts,
           recipes = filter (\<lambda>r. r_id r \<noteq> i) (recipes d)\<rparr>"
    by (auto simp: delete_recipe_def delete_and_commit_def u set_null_idem split: option.splits)
  from ok have dist: "distinct (map t_id ?ts)" and
    refs: "\<And>t j. t \<in> set ?ts \<Longrightarrow> recipe_id t = Some j \<Longrightarrow>
       length (filter (\<lambda>t. recipe_id t = Some j) ?ts) \<le> 1 \<and> j \<in> set (map r_id (recipes d))"
    by (auto simp: links_ok_iff)
  have ids: "map t_id (set_null i ?ts) = map t_id ?ts"
    by (simp add: set_null_def o_def)
  have one: "length (filter (\<lambda>t. recipe_id t = Some j) (set_null i ?ts)) \<le> 1 \<and>
             j \<in> set (map r_id (filter (\<lambda>r. r_id r \<noteq> i) (recipes d)))"
    if "t \<in> set (set_null i ?ts)" "recipe_id t = Some j" for t j
  proof -
    from that obtain t0 where t0: "t0 \<in> set ?ts" "recipe_id t0 = Some j" "j \<noteq> i"
      by (auto simp: set_null_def split: if_splits)
    have "length (filter (\<lambda>t. recipe_id t = Some j) (set_null i ?ts)) \<le>
          length (filter (\<lambda>t. recipe_id t = Some j) ?ts)"
      unfolding set_null_def filter_map length_map o_def
      by (intro filter_mono_length) (auto split: if_splits)
    with refs [OF t0(1,2)] t0(3) show ?thesis by auto
  qed
  show ?thesis
    unfolding d' links_ok_iff using dist one by (auto simp: ids)
qed

text \<open>
  The links under the handlers. The empty database has the property \<open>links_ok\<close>, and every
  handler keeps it: transcript creation, the two form handlers, the generation workflow and
  the deletion, on an engine that enforces the foreign key and on one that does not. In
  such a database every recipe is referenced by at most one transcript.
\<close>

theorem handlers_keep_links:
  "links_ok \<lparr>transcripts = [], recipes = []\<rparr> \<and>
   (links_ok d \<longrightarrow>
      length (referencing j d) \<le> 1 \<and>
      links_ok (snd (create_transcript_and_return_editor d body)) \<and>
      links_ok (create_recipe_from_form d name prov qs us ns notes) \<and>
      (case update_recipe_and_return_cookbook d i name prov qs us ns notes of
         Inr d' \<Rightarrow> links_ok d' | Inl e \<Rightarrow> True) \<and>
      links_ok (database (generate_recipe_from_transcript service d i body)) \<and>
      (case delete_recipe enforced d i of Inr d' \<Rightarrow> links_ok d' | Inl e \<Rightarrow> True))"
proof (rule conjI)
  show "links_ok \<lparr>transcripts = [], recipes = []\<rparr>"
    by (rule links_ok_empty)
  show "links_ok d \<longrightarrow>
      length (referencing j d) \<le> 1 \<and>
      links_ok (snd (create_transcript_and_return_editor d body)) \<and>
      links_ok (create_recipe_from_form d name prov qs us ns notes) \<and>
      (case update_recipe_and_return_cookbook d i name prov qs us ns notes of
         Inr d' \<Rightarrow> links_ok d' | Inl e \<Rightarrow> True) \<and>
      links_ok (database (generate_recipe_from_transcript service d i body)) \<and>
      (case delete_recipe enforced d i of Inr d' \<Rightarrow> links_ok d' | Inl e \<Rightarrow> True)"
  proof
    assume ok: "links_ok d"
    have 1: "(case update_recipe_and_return_cookbook d i name prov qs us ns notes of
         Inr d' \<Rightarrow> links_ok d' | Inl e \<Rightarrow> True)"
      using links_ok_update [OF ok] by (simp split: sum.splits)
    have 2: "(case delete_recipe enforced d i of Inr d' \<Rightarrow> links_ok d' | Inl e \<Rightarrow> True)"
      using links_ok_delete [OF ok] by (simp split: sum.splits)
    from 1 2 links_ok_referencing [OF ok] links_ok_create_transcript [OF ok]
      links_ok_create_recipe [OF ok] links_ok_generate [OF ok]
    show "length (referencing j d) \<le> 1 \<and>
      links_ok (snd (create_transcript_and_return_editor d body)) \<and>
      links_ok (create_recipe_from_form d name prov qs us ns notes) \<and>
      (case update_recipe_and_return_cookbook d i name prov qs us ns notes of
         Inr d' \<Rightarrow> links_ok d' | Inl e \<Rightarrow> True) \<and>
      links_ok (database (generate_recipe_from_transcript service d i body)) \<and>
      (case delete_recipe enforced d i of Inr d' \<Rightarrow> links_ok d' | Inl e \<Rightarrow> True)"
      by simp
  qed
qed

text \<open>The links of the example database, before and after the deletion of recipe 1.\<close>

theorem handlers_keep_links_witness:
  "links_ok kitchen_db \<and>
   length (referencing 1 kitchen_db) \<le> 1 \<and>
   (case delete_recipe False kitchen_db 1 of Inr d' \<Rightarrow> links_ok d' | Inl e \<Rightarrow> True)"
proof -
  have "links_ok kitchen_db"
    by (simp add: kitchen_db_def links_ok_def referencing_def)
  then show ?thesis
    using handlers_keep_links [where d = kitchen_db and j = 1 and i = 1 and enforced = False]
    by simp
qed

end
